theory Spec2Isabelle
  imports
    Complex_Main
    "HOL-Library.Multiset"
    "HOL-Library.Monad_Syntax"
    "HOL-Library.Option_ord"
begin

section \<open>Values\<close>

text \<open>
  The handlers of \<^verbatim>\<open>aquariumController.js\<close> move JavaScript values from the request
  into the parameters of one SQL statement and move the rows of its result back into
  the response.  One type of values serves both sides.

  A JavaScript number is \<open>NaN\<close>, an infinity or a finite number; every finite double is
  a rational, and the two zeros, which no handler tells apart, are both \<open>Fin 0\<close>.
  \<open>VObj\<close> stands for an array or object of a JSON body or of a parsed query string,
  carried as its JSON text; \<open>VTime\<close> is a timestamp of the database, an instant counted
  in whole units of time.  SQL's \<open>NULL\<close> is \<open>VNull\<close>.
\<close>

datatype jsnum = NaN | PosInf | NegInf | Fin rat

datatype val =
    VUndef
  | VNull
  | VBool bool
  | VNum jsnum
  | VStr string
  | VTime int
  | VObj string

text \<open>
  A row, and a JSON object of a request body or a query string, maps the names of its
  columns or keys to values.  Reading a key that an object does not have gives
  \<open>undefined\<close> (\<open>field\<close>, the destructuring \<^verbatim>\<open>const { a, b } = req.body\<close>); a
  column that a row does not hold is \<open>NULL\<close> (\<open>col\<close>).
\<close>

type_synonym row = "string \<rightharpoonup> val"

definition field :: "row \<Rightarrow> string \<Rightarrow> val" where
  "field obj k = (case obj k of None \<Rightarrow> VUndef | Some v \<Rightarrow> v)"

definition col :: "row \<Rightarrow> string \<Rightarrow> val" where
  "col r c = (case r c of None \<Rightarrow> VNull | Some v \<Rightarrow> v)"


section \<open>The platform: JavaScript runtime and database engine\<close>

text \<open>
  Two things the handlers rely on are not among the sources and are parameters of the
  model.

  \<^item> The runtime's \<^verbatim>\<open>Number\<close> applied to a string (the grammar of numeric literals,
    rounded to a double) and to an array or object (through its string form):
    \<open>StringToNumber\<close> and \<open>ObjectToNumber\<close>.
  \<^item> The schema of the database.  The driver sends every parameter as text, and the engine
    reads it in the type of the column it is compared with or stored in:
    \<open>coerce E t c v\<close> is the value that column \<open>c\<close> of table \<open>t\<close> holds for the
    parameter \<open>v\<close>, and \<open>None\<close> when the column's type has no reading of \<open>v\<close>; the
    statement then fails and the driver rejects the promise.  \<open>day_start\<close> is
    \<^verbatim>\<open>date_trunc('day', _)\<close> in the time zone of the session.

  A statement whose parameters the engine reads is executed: a lost connection and the
  constraints that the schema may declare are outside the model.
\<close>

record env =
  StringToNumber :: "string \<Rightarrow> jsnum"
  ObjectToNumber :: "string \<Rightarrow> jsnum"
  coerce :: "string \<Rightarrow> string \<Rightarrow> val \<Rightarrow> val option"
  day_start :: "int \<Rightarrow> int"


section \<open>JavaScript operators used by the handlers\<close>

text \<open>\<^verbatim>\<open>!v\<close> is \<open>\<not> truthy v\<close>: \<open>undefined\<close>, \<open>null\<close>, \<open>false\<close>, \<open>0\<close>, \<open>NaN\<close> and
  the empty string are falsy, everything else is truthy.\<close>

fun truthy :: "val \<Rightarrow> bool" where
  "truthy VUndef = False"
| "truthy VNull = False"
| "truthy (VBool b) = b"
| "truthy (VNum n) = (n \<noteq> NaN \<and> n \<noteq> Fin 0)"
| "truthy (VStr s) = (s \<noteq> [])"
| "truthy (VTime t) = True"
| "truthy (VObj j) = True"

text \<open>\<^verbatim>\<open>a || b\<close>\<close>

definition js_or :: "val \<Rightarrow> val \<Rightarrow> val" where
  "js_or a b = (if truthy a then a else b)"

text \<open>\<^verbatim>\<open>Number(v)\<close>\<close>

fun Number :: "env \<Rightarrow> val \<Rightarrow> jsnum" where
  "Number E VUndef = NaN"
| "Number E VNull = Fin 0"
| "Number E (VBool b) = (if b then Fin 1 else Fin 0)"
| "Number E (VNum n) = n"
| "Number E (VStr s) = StringToNumber E s"
| "Number E (VTime t) = Fin (of_int t)"
| "Number E (VObj j) = ObjectToNumber E j"

text \<open>\<^verbatim>\<open>const toNumber = v => (v === null || v === undefined ? null : Number(v));\<close>\<close>

definition toNumber :: "env \<Rightarrow> val \<Rightarrow> val" where
  "toNumber E v = (if v = VNull \<or> v = VUndef then VNull else VNum (Number E v))"


section \<open>The database\<close>

text \<open>
  The five tables the statements name, each a list of rows, and the sequences that
  number the new rows of the three tables the handlers insert into.
\<close>

record db =
  aquariums :: "row list"
  schedules :: "row list"
  feeding_logs :: "row list"
  alerts :: "row list"
  sensor_data :: "row list"
  aquariums_id_seq :: nat
  schedules_id_seq :: nat
  feeding_logs_id_seq :: nat

text \<open>
  Modelled from the spec: the schema (the \<^verbatim>\<open>CREATE TABLE\<close> statements with the
  defaults of the columns) is missing from the sources.  Following the spec, a created row
  gets a generated \<open>id\<close>, here the next number of the table's sequence, and
  \<open>created_at\<close> of an aquarium and \<open>ts\<close> of a feeding log default to the time of
  creation.
\<close>

definition serial :: "nat \<Rightarrow> val" where
  "serial n = VNum (Fin (of_nat n))"

definition creation_time :: "int \<Rightarrow> val" where
  "creation_time now = VTime now"

text \<open>
  Binding a parameter: the driver sends \<open>undefined\<close> and \<open>null\<close> as \<open>NULL\<close>, which every
  column type reads as \<open>NULL\<close>; any other value is read by the column.
\<close>

definition bind_param :: "env \<Rightarrow> string \<Rightarrow> string \<Rightarrow> val \<Rightarrow> val option" where
  "bind_param E t c v = (if v = VUndef \<or> v = VNull then Some VNull else coerce E t c v)"

text \<open>\<^verbatim>\<open>a = b\<close> in a \<^verbatim>\<open>WHERE\<close> clause selects a row only when neither side is
  \<open>NULL\<close>.\<close>

definition sql_eq :: "val \<Rightarrow> val \<Rightarrow> bool" where
  "sql_eq a b = (a \<noteq> VNull \<and> b \<noteq> VNull \<and> a = b)"

text \<open>\<^verbatim>\<open>a <= b\<close> on timestamps; a comparison with \<open>NULL\<close> selects nothing.\<close>

fun sql_le :: "val \<Rightarrow> val \<Rightarrow> bool" where
  "sql_le (VTime a) (VTime b) = (a \<le> b)"
| "sql_le _ _ = False"

text \<open>\<^verbatim>\<open>COALESCE(a, b)\<close>\<close>

definition coalesce :: "val \<Rightarrow> val \<Rightarrow> val" where
  "coalesce a b = (if a = VNull then b else a)"

text \<open>\<^verbatim>\<open>RETURNING c1, ..., cn\<close>: the named columns of a row, each present in the
  result.\<close>

definition returning :: "string list \<Rightarrow> row \<Rightarrow> row" where
  "returning cs r = (\<lambda>c. if c \<in> set cs then Some (col r c) else None)"


section \<open>Responses\<close>

text \<open>
  What a handler sends: the status set by \<^verbatim>\<open>res.status(n)\<close> (200 when the handler
  calls \<^verbatim>\<open>res.json\<close> alone) and the JSON document.  \<open>first_row\<close> is
  \<^verbatim>\<open>result.rows[0]\<close>, which is \<open>undefined\<close> on an empty result.  \<open>internal_error\<close>
  is the answer of the \<^verbatim>\<open>catch\<close> block that every handler has: a handler gets there
  when a statement of its fails, and then returns the database as it received it, since a
  statement that fails changes nothing.
\<close>

datatype payload =
    Error string
  | Row row
  | Rows "row list"
  | Feeding payload
  | Deleted
  | Nothing

record response =
  status :: nat
  payload :: payload

definition reply :: "nat \<Rightarrow> payload \<Rightarrow> response" where
  "reply n p = \<lparr>status = n, payload = p\<rparr>"

definition first_row :: "row list \<Rightarrow> payload" where
  "first_row rs = (case rs of [] \<Rightarrow> Nothing | r # _ \<Rightarrow> Row r)"

definition internal_error :: response where
  "internal_error = reply 500 (Error ''internal_error'')"


section \<open>1. POST /aquariums\<close>

text \<open>
  \<^verbatim>\<open>INSERT INTO aquariums (user_id, name, size_litres) VALUES ($1,$2,$3)
  RETURNING id, user_id, name, size_litres, created_at\<close>

  A statement gives \<open>None\<close> when the engine rejects one of its parameters, and the rows
  of its result with the new state of the database otherwise.
\<close>

definition insert_aquarium ::
  "env \<Rightarrow> int \<Rightarrow> db \<Rightarrow> val \<Rightarrow> val \<Rightarrow> val \<Rightarrow> (row list \<times> db) option" where
  "insert_aquarium E now d p1 p2 p3 =
     do {
       u \<leftarrow> bind_param E ''aquariums'' ''user_id'' p1;
       n \<leftarrow> bind_param E ''aquariums'' ''name'' p2;
       s \<leftarrow> bind_param E ''aquariums'' ''size_litres'' p3;
       let r = [''id'' \<mapsto> serial (aquariums_id_seq d), ''user_id'' \<mapsto> u, ''name'' \<mapsto> n,
                ''size_litres'' \<mapsto> s, ''created_at'' \<mapsto> creation_time now];
       Some ([returning [''id'', ''user_id'', ''name'', ''size_litres'', ''created_at''] r],
             d\<lparr>aquariums := aquariums d @ [r],
               aquariums_id_seq := Suc (aquariums_id_seq d)\<rparr>)
     }"

definition createAquarium :: "env \<Rightarrow> int \<Rightarrow> db \<Rightarrow> row \<Rightarrow> response \<times> db" where
  "createAquarium E now d body =
     (let user_id = field body ''user_id'';
          name = field body ''name'';
          size_litres = field body ''size_litres''
      in if \<not> truthy user_id \<or> \<not> truthy name
         then (reply 400 (Error ''user_id and name required''), d)
         else (case insert_aquarium E now d user_id name size_litres of
                 None \<Rightarrow> (internal_error, d)
               | Some (rows, d') \<Rightarrow> (reply 201 (first_row rows), d')))"


section \<open>2. POST /aquariums/:id/feeding_settings\<close>

text \<open>
  \<^verbatim>\<open>INSERT INTO schedules (device_id, name, type, interval_hours, feed_volume_grams,
  enabled, start_date, end_date) VALUES ($1,$2,$3,$4,$5,COALESCE($6,true),$7,$8)
  RETURNING id, device_id, name, type, interval_hours, feed_volume_grams, enabled,
  start_date, end_date\<close>
\<close>

definition insert_schedule ::
  "env \<Rightarrow> db \<Rightarrow> val \<Rightarrow> val \<Rightarrow> val \<Rightarrow> val \<Rightarrow> val \<Rightarrow> val \<Rightarrow> val \<Rightarrow> val \<Rightarrow> (row list \<times> db) option" where
  "insert_schedule E d p1 p2 p3 p4 p5 p6 p7 p8 =
     do {
       dev \<leftarrow> bind_param E ''schedules'' ''device_id'' p1;
       nm \<leftarrow> bind_param E ''schedules'' ''name'' p2;
       ty \<leftarrow> bind_param E ''schedules'' ''type'' p3;
       ih \<leftarrow> bind_param E ''schedules'' ''interval_hours'' p4;
       fv \<leftarrow> bind_param E ''schedules'' ''feed_volume_grams'' p5;
       en \<leftarrow> bind_param E ''schedules'' ''enabled'' p6;
       sd \<leftarrow> bind_param E ''schedules'' ''start_date'' p7;
       ed \<leftarrow> bind_param E ''schedules'' ''end_date'' p8;
       let r = [''id'' \<mapsto> serial (schedules_id_seq d), ''device_id'' \<mapsto> dev, ''name'' \<mapsto> nm,
                ''type'' \<mapsto> ty, ''interval_hours'' \<mapsto> ih, ''feed_volume_grams'' \<mapsto> fv,
                ''enabled'' \<mapsto> coalesce en (VBool True), ''start_date'' \<mapsto> sd,
                ''end_date'' \<mapsto> ed];
       Some ([returning [''id'', ''device_id'', ''name'', ''type'', ''interval_hours'',
                         ''feed_volume_grams'', ''enabled'', ''start_date'', ''end_date''] r],
             d\<lparr>schedules := schedules d @ [r],
               schedules_id_seq := Suc (schedules_id_seq d)\<rparr>)
     }"

definition createFeedingSetting :: "env \<Rightarrow> db \<Rightarrow> string \<Rightarrow> row \<Rightarrow> response \<times> db" where
  "createFeedingSetting E d aquariumId body =
     (let name = field body ''name'';
          type = field body ''type'';
          interval_hours = field body ''interval_hours'';
          feed_volume_grams = field body ''feed_volume_grams'';
          start_date = field body ''start_date'';
          end_date = field body ''end_date'';
          enabled = field body ''enabled''
      in if \<not> truthy type
         then (reply 400 (Error ''type required (interval|daily_times)''), d)
         else (case insert_schedule E d (VStr aquariumId) (js_or name VNull) type
                      (js_or interval_hours VNull) (js_or feed_volume_grams VNull) enabled
                      (js_or start_date VNull) (js_or end_date VNull) of
                 None \<Rightarrow> (internal_error, d)
               | Some (rows, d') \<Rightarrow> (reply 201 (first_row rows), d')))"


section \<open>3. POST /aquariums/:id/feed\<close>

text \<open>
  \<^verbatim>\<open>INSERT INTO feeding_logs (device_id, mode, volume_grams, actor)
  VALUES ($1,'MANUAL',$2,$3) RETURNING id, device_id, ts, mode, volume_grams, actor\<close>
\<close>

definition insert_feeding_log ::
  "env \<Rightarrow> int \<Rightarrow> db \<Rightarrow> val \<Rightarrow> val \<Rightarrow> val \<Rightarrow> (row list \<times> db) option" where
  "insert_feeding_log E now d p1 p2 p3 =
     do {
       dev \<leftarrow> bind_param E ''feeding_logs'' ''device_id'' p1;
       vol \<leftarrow> bind_param E ''feeding_logs'' ''volume_grams'' p2;
       act \<leftarrow> bind_param E ''feeding_logs'' ''actor'' p3;
       let r = [''id'' \<mapsto> serial (feeding_logs_id_seq d), ''device_id'' \<mapsto> dev,
                ''ts'' \<mapsto> creation_time now, ''mode'' \<mapsto> VStr ''MANUAL'', ''volume_grams'' \<mapsto> vol,
                ''actor'' \<mapsto> act];
       Some ([returning [''id'', ''device_id'', ''ts'', ''mode'', ''volume_grams'', ''actor''] r],
             d\<lparr>feeding_logs := feeding_logs d @ [r],
               feeding_logs_id_seq := Suc (feeding_logs_id_seq d)\<rparr>)
     }"

definition triggerFeed :: "env \<Rightarrow> int \<Rightarrow> db \<Rightarrow> string \<Rightarrow> row \<Rightarrow> response \<times> db" where
  "triggerFeed E now d aquariumId body =
     (let volume_grams = field body ''volume_grams'';
          actor = field body ''actor'';
          vol = js_or (toNumber E volume_grams) VNull
      in case insert_feeding_log E now d (VStr aquariumId) vol (js_or actor (VStr ''user'')) of
           None \<Rightarrow> (internal_error, d)
         | Some (rows, d') \<Rightarrow> (reply 201 (Feeding (first_row rows)), d'))"


section \<open>7. GET /aquariums/:id/condition-history\<close>

text \<open>
  \<^verbatim>\<open>ORDER BY c DESC\<close> on a timestamp column: later rows first, rows without a
  timestamp before all others (the engine's \<^verbatim>\<open>NULLS FIRST\<close> for a descending
  order).  The rows are sorted by the key \<open>desc_key\<close>, where \<open>None\<close> is the least key.
\<close>

fun desc_key :: "val \<Rightarrow> int option" where
  "desc_key (VTime t) = Some (- t)"
| "desc_key _ = None"

definition order_by_desc :: "string \<Rightarrow> row list \<Rightarrow> row list" where
  "order_by_desc c rs = sort_key (\<lambda>r. desc_key (col r c)) rs"

text \<open>
  The handler appends \<^verbatim>\<open>AND ts >= $n\<close> and \<^verbatim>\<open>AND ts <= $n\<close> to the query, and the
  bound to the parameters, only for a truthy \<open>start\<close> and \<open>end\<close>: a clause that was not
  appended is \<open>None\<close> here.

  \<^verbatim>\<open>SELECT * FROM sensor_data WHERE device_id = $1 [AND ts >= $2] [AND ts <= $3]
  ORDER BY ts DESC LIMIT 500\<close>
\<close>

definition bind_bound :: "env \<Rightarrow> val option \<Rightarrow> val option option" where
  "bind_bound E b =
     (case b of None \<Rightarrow> Some None
      | Some v \<Rightarrow> map_option Some (bind_param E ''sensor_data'' ''ts'' v))"

definition in_range :: "val option \<Rightarrow> val option \<Rightarrow> val \<Rightarrow> bool" where
  "in_range lo hi t =
     ((case lo of None \<Rightarrow> True | Some s \<Rightarrow> sql_le s t) \<and>
      (case hi of None \<Rightarrow> True | Some e \<Rightarrow> sql_le t e))"

definition select_sensor_data ::
  "env \<Rightarrow> db \<Rightarrow> val \<Rightarrow> val option \<Rightarrow> val option \<Rightarrow> row list option" where
  "select_sensor_data E d p1 start end =
     do {
       dev \<leftarrow> bind_param E ''sensor_data'' ''device_id'' p1;
       lo \<leftarrow> bind_bound E start;
       hi \<leftarrow> bind_bound E end;
       Some (take 500 (order_by_desc ''ts''
               (filter (\<lambda>r. sql_eq (col r ''device_id'') dev \<and> in_range lo hi (col r ''ts''))
                  (sensor_data d))))
     }"

definition getConditionHistory :: "env \<Rightarrow> db \<Rightarrow> string \<Rightarrow> row \<Rightarrow> response \<times> db" where
  "getConditionHistory E d aquariumId query =
     (let start = field query ''start'';
          end = field query ''end''
      in case select_sensor_data E d (VStr aquariumId)
                (if truthy start then Some start else None)
                (if truthy end then Some end else None) of
           None \<Rightarrow> (internal_error, d)
         | Some rows \<Rightarrow> (reply 200 (Rows rows), d))"


section \<open>8. GET /aquariums/:id/daily-consumption\<close>










section \<open>10. PUT /aquariums/:id\<close>

text \<open>
  \<^verbatim>\<open>UPDATE t SET ... WHERE id = $n RETURNING *\<close>: every row that the condition
  selects is replaced by its update; the result lists the updated rows.
\<close>

definition update_where :: "(row \<Rightarrow> bool) \<Rightarrow> (row \<Rightarrow> row) \<Rightarrow> row list \<Rightarrow> row list" where
  "update_where hit upd rs = map (\<lambda>r. if hit r then upd r else r) rs"

text \<open>
  \<^verbatim>\<open>UPDATE aquariums SET name = COALESCE($1, name), size_litres = COALESCE($2, size_litres),
  feeding_volume_grams = COALESCE($3, feeding_volume_grams),
  feeding_period_hours = COALESCE($4, feeding_period_hours) WHERE id = $5 RETURNING *\<close>
\<close>

definition set_aquarium :: "val \<Rightarrow> val \<Rightarrow> val \<Rightarrow> val \<Rightarrow> row \<Rightarrow> row" where
  "set_aquarium n s fv fp r =
     r(''name'' \<mapsto> coalesce n (col r ''name''),
       ''size_litres'' \<mapsto> coalesce s (col r ''size_litres''),
       ''feeding_volume_grams'' \<mapsto> coalesce fv (col r ''feeding_volume_grams''),
       ''feeding_period_hours'' \<mapsto> coalesce fp (col r ''feeding_period_hours''))"

definition update_aquarium ::
  "env \<Rightarrow> db \<Rightarrow> val \<Rightarrow> val \<Rightarrow> val \<Rightarrow> val \<Rightarrow> val \<Rightarrow> (row list \<times> db) option" where
  "update_aquarium E d p1 p2 p3 p4 p5 =
     do {
       n \<leftarrow> bind_param E ''aquariums'' ''name'' p1;
       s \<leftarrow> bind_param E ''aquariums'' ''size_litres'' p2;
       fv \<leftarrow> bind_param E ''aquariums'' ''feeding_volume_grams'' p3;
       fp \<leftarrow> bind_param E ''aquariums'' ''feeding_period_hours'' p4;
       k \<leftarrow> bind_param E ''aquariums'' ''id'' p5;
       let hit = (\<lambda>r. sql_eq (col r ''id'') k);
       Some (map (set_aquarium n s fv fp) (filter hit (aquariums d)),
             d\<lparr>aquariums := update_where hit (set_aquarium n s fv fp) (aquariums d)\<rparr>)
     }"

definition updateAquarium :: "env \<Rightarrow> db \<Rightarrow> string \<Rightarrow> row \<Rightarrow> response \<times> db" where
  "updateAquarium E d id' body =
     (let name = field body ''name'';
          size_litres = field body ''size_litres'';
          feeding_volume_grams = field body ''feeding_volume_grams'';
          feeding_period_hours = field body ''feeding_period_hours''
      in case update_aquarium E d name size_litres feeding_volume_grams feeding_period_hours
                (VStr id') of
           None \<Rightarrow> (internal_error, d)
         | Some (rows, d') \<Rightarrow>
             if length rows = 0 then (reply 404 (Error ''not_found''), d')
             else (reply 200 (first_row rows), d'))"


section \<open>11. PUT /aquariums/:id/feeding_settings\<close>

text \<open>
  The ownership check of a schedule or an alert:
  \<^verbatim>\<open>SELECT * FROM t WHERE id = $1 AND device_id = $2\<close>
\<close>

definition select_owned :: "env \<Rightarrow> string \<Rightarrow> row list \<Rightarrow> val \<Rightarrow> val \<Rightarrow> row list option" where
  "select_owned E t rs p1 p2 =
     do {
       k \<leftarrow> bind_param E t ''id'' p1;
       dev \<leftarrow> bind_param E t ''device_id'' p2;
       Some (filter (\<lambda>r. sql_eq (col r ''id'') k \<and> sql_eq (col r ''device_id'') dev) rs)
     }"

text \<open>
  \<^verbatim>\<open>UPDATE schedules SET name = COALESCE($1,name), type = COALESCE($2,type),
  interval_hours = COALESCE($3,interval_hours), feed_volume_grams = COALESCE($4,feed_volume_grams),
  enabled = COALESCE($5,enabled), start_date = COALESCE($6,start_date),
  end_date = COALESCE($7,end_date) WHERE id = $8 RETURNING *\<close>
\<close>

definition set_schedule :: "val \<Rightarrow> val \<Rightarrow> val \<Rightarrow> val \<Rightarrow> val \<Rightarrow> val \<Rightarrow> val \<Rightarrow> row \<Rightarrow> row" where
  "set_schedule nm ty ih fv en sd ed r =
     r(''name'' \<mapsto> coalesce nm (col r ''name''),
       ''type'' \<mapsto> coalesce ty (col r ''type''),
       ''interval_hours'' \<mapsto> coalesce ih (col r ''interval_hours''),
       ''feed_volume_grams'' \<mapsto> coalesce fv (col r ''feed_volume_grams''),
       ''enabled'' \<mapsto> coalesce en (col r ''enabled''),
       ''start_date'' \<mapsto> coalesce sd (col r ''start_date''),
       ''end_date'' \<mapsto> coalesce ed (col r ''end_date''))"

definition update_schedule ::
  "env \<Rightarrow> db \<Rightarrow> val \<Rightarrow> val \<Rightarrow> val \<Rightarrow> val \<Rightarrow> val \<Rightarrow> val \<Rightarrow> val \<Rightarrow> val \<Rightarrow> (row list \<times> db) option" where
  "update_schedule E d p1 p2 p3 p4 p5 p6 p7 p8 =
     do {
       nm \<leftarrow> bind_param E ''schedules'' ''name'' p1;
       ty \<leftarrow> bind_param E ''schedules'' ''type'' p2;
       ih \<leftarrow> bind_param E ''schedules'' ''interval_hours'' p3;
       fv \<leftarrow> bind_param E ''schedules'' ''feed_volume_grams'' p4;
       en \<leftarrow> bind_param E ''schedules'' ''enabled'' p5;
       sd \<leftarrow> bind_param E ''schedules'' ''start_date'' p6;
       ed \<leftarrow> bind_param E ''schedules'' ''end_date'' p7;
       k \<leftarrow> bind_param E ''schedules'' ''id'' p8;
       let hit = (\<lambda>r. sql_eq (col r ''id'') k);
       Some (map (set_schedule nm ty ih fv en sd ed) (filter hit (schedules d)),
             d\<lparr>schedules := update_where hit (set_schedule nm ty ih fv en sd ed) (schedules d)\<rparr>)
     }"

definition updateFeedingSetting :: "env \<Rightarrow> db \<Rightarrow> string \<Rightarrow> row \<Rightarrow> response \<times> db" where
  "updateFeedingSetting E d aquariumId body =
     (let settingId = field body ''settingId'';
          name = field body ''name'';
          type = field body ''type'';
          interval_hours = field body ''interval_hours'';
          feed_volume_grams = field body ''feed_volume_grams'';
          enabled = field body ''enabled'';
          start_date = field body ''start_date'';
          end_date = field body ''end_date''
      in if \<not> truthy settingId then (reply 400 (Error ''settingId required in body''), d)
         else (case select_owned E ''schedules'' (schedules d) settingId (VStr aquariumId) of
                 None \<Rightarrow> (internal_error, d)
               | Some check \<Rightarrow>
                   if length check = 0 then (reply 404 (Error ''schedule_not_found''), d)
                   else (case update_schedule E d name type interval_hours feed_volume_grams
                                enabled start_date end_date settingId of
                           None \<Rightarrow> (internal_error, d)
                         | Some (rows, d') \<Rightarrow> (reply 200 (first_row rows), d'))))"


section \<open>12. PUT /aquariums/:id/alerts\<close>

text \<open>
  \<^verbatim>\<open>UPDATE alerts SET resolved = $1, resolved_at = CASE WHEN $1 THEN now() ELSE NULL END
  WHERE id = $2 RETURNING *\<close>

  The handler computes \<open>$1\<close> as a JavaScript boolean and the statement uses it as a
  condition, so it reaches the engine as that boolean.
\<close>

definition set_alert :: "int \<Rightarrow> bool \<Rightarrow> row \<Rightarrow> row" where
  "set_alert now flag r =
     r(''resolved'' \<mapsto> VBool flag,
       ''resolved_at'' \<mapsto> (if flag then VTime now else VNull))"

definition update_alert :: "env \<Rightarrow> int \<Rightarrow> db \<Rightarrow> bool \<Rightarrow> val \<Rightarrow> (row list \<times> db) option" where
  "update_alert E now d flag p2 =
     do {
       k \<leftarrow> bind_param E ''alerts'' ''id'' p2;
       let hit = (\<lambda>r. sql_eq (col r ''id'') k);
       Some (map (set_alert now flag) (filter hit (alerts d)),
             d\<lparr>alerts := update_where hit (set_alert now flag) (alerts d)\<rparr>)
     }"

definition updateAlertStatus :: "env \<Rightarrow> int \<Rightarrow> db \<Rightarrow> string \<Rightarrow> row \<Rightarrow> response \<times> db" where
  "updateAlertStatus E now d aquariumId body =
     (let alertId = field body ''alertId'';
          resolved = field body ''resolved''
      in if \<not> truthy alertId then (reply 400 (Error ''alertId required''), d)
         else (case select_owned E ''alerts'' (alerts d) alertId (VStr aquariumId) of
                 None \<Rightarrow> (internal_error, d)
               | Some check \<Rightarrow>
                   if length check = 0 then (reply 404 (Error ''alert_not_found''), d)
                   else (case update_alert E now d
                                (resolved = VBool True \<or> resolved = VStr ''true'') alertId of
                           None \<Rightarrow> (internal_error, d)
                         | Some (rows, d') \<Rightarrow> (reply 200 (first_row rows), d'))))"


section \<open>14. DELETE /aquariums/:id/feeding_settings/:settingId\<close>

text \<open>\<^verbatim>\<open>DELETE FROM schedules WHERE id = $1\<close>\<close>

definition delete_schedule :: "env \<Rightarrow> db \<Rightarrow> val \<Rightarrow> db option" where
  "delete_schedule E d p1 =
     do {
       k \<leftarrow> bind_param E ''schedules'' ''id'' p1;
       Some (d\<lparr>schedules := filter (\<lambda>r. \<not> sql_eq (col r ''id'') k) (schedules d)\<rparr>)
     }"

definition deleteFeedingSetting :: "env \<Rightarrow> db \<Rightarrow> string \<Rightarrow> string \<Rightarrow> response \<times> db" where
  "deleteFeedingSetting E d aquariumId settingId =
     (case select_owned E ''schedules'' (schedules d) (VStr settingId) (VStr aquariumId) of
        None \<Rightarrow> (internal_error, d)
      | Some check \<Rightarrow>
          if length check = 0 then (reply 404 (Error ''schedule_not_found''), d)
          else (case delete_schedule E d (VStr settingId) of
                  None \<Rightarrow> (internal_error, d)
                | Some d' \<Rightarrow> (reply 200 Deleted, d')))"


section \<open>A platform and a database for the examples\<close>

text \<open>
  A platform with integer keys and timestamps counted in seconds: the key columns and
  \<open>ts\<close> read a string of decimal digits, as the path and the query string of a request
  deliver it, or a value of their own type; the other columns take a value as it is.  A
  day has 86400 seconds.
\<close>

definition digit :: "char \<Rightarrow> nat option" where
  "digit c = map_of [(CHR ''0'', 0), (CHR ''1'', 1), (CHR ''2'', 2), (CHR ''3'', 3),
                     (CHR ''4'', 4), (CHR ''5'', 5), (CHR ''6'', 6), (CHR ''7'', 7),
                     (CHR ''8'', 8), (CHR ''9'', 9)] c"

fun read_digits :: "nat \<Rightarrow> string \<Rightarrow> nat option" where
  "read_digits acc [] = Some acc"
| "read_digits acc (c # cs) =
     (case digit c of None \<Rightarrow> None | Some k \<Rightarrow> read_digits (10 * acc + k) cs)"

definition read_nat :: "string \<Rightarrow> nat option" where
  "read_nat s = (if s = [] then None else read_digits 0 s)"

definition example_coerce :: "string \<Rightarrow> string \<Rightarrow> val \<Rightarrow> val option" where
  "example_coerce t c v =
     (if c = ''id'' \<or> c = ''device_id'' \<or> c = ''user_id''
      then (case v of VStr s \<Rightarrow> map_option serial (read_nat s)
                    | VNum n \<Rightarrow> Some (VNum n)
                    | _ \<Rightarrow> None)
      else if c = ''ts''
      then (case v of VStr s \<Rightarrow> map_option (\<lambda>n. VTime (int n)) (read_nat s)
                    | VTime t \<Rightarrow> Some (VTime t)
                    | _ \<Rightarrow> None)
      else Some v)"

definition example_env :: env where
  "example_env =
     \<lparr>StringToNumber = (\<lambda>s. case read_nat s of None \<Rightarrow> NaN | Some n \<Rightarrow> Fin (of_nat n)),
      ObjectToNumber = (\<lambda>j. NaN),
      coerce = example_coerce,
      day_start = (\<lambda>t. t - t mod 86400)\<rparr>"

definition empty_db :: db where
  "empty_db = \<lparr>aquariums = [], schedules = [], feeding_logs = [], alerts = [],
               sensor_data = [], aquariums_id_seq = 1, schedules_id_seq = 1,
               feeding_logs_id_seq = 1\<rparr>"

text \<open>
  Two aquariums.  Aquarium 1 has schedule 7, an open alert 3, three feeding logs (5 g and
  3 g on the day that starts at 86400, 10 g on the day that starts at 172800) and three
  sensor readings; aquarium 2 has schedule 8, a resolved alert 4, one feeding log and one
  sensor reading.
\<close>

definition schedule7 :: row where
  "schedule7 = [''id'' \<mapsto> serial 7, ''device_id'' \<mapsto> serial 1, ''name'' \<mapsto> VStr ''Morning'',
                ''type'' \<mapsto> VStr ''interval'', ''interval_hours'' \<mapsto> VNum (Fin 12),
                ''feed_volume_grams'' \<mapsto> VNum (Fin 2), ''enabled'' \<mapsto> VBool True,
                ''start_date'' \<mapsto> VNull, ''end_date'' \<mapsto> VNull]"

definition schedule8 :: row where
  "schedule8 = [''id'' \<mapsto> serial 8, ''device_id'' \<mapsto> serial 2, ''name'' \<mapsto> VStr ''Evening'',
                ''type'' \<mapsto> VStr ''daily_times'', ''interval_hours'' \<mapsto> VNull,
                ''feed_volume_grams'' \<mapsto> VNum (Fin 3), ''enabled'' \<mapsto> VBool False,
                ''start_date'' \<mapsto> VNull, ''end_date'' \<mapsto> VNull]"

definition tank1 :: row where
  "tank1 = [''id'' \<mapsto> serial 1, ''user_id'' \<mapsto> serial 1, ''name'' \<mapsto> VStr ''Tank A'',
            ''size_litres'' \<mapsto> VNum (Fin 50), ''created_at'' \<mapsto> VTime 10,
            ''feeding_volume_grams'' \<mapsto> VNum (Fin 4), ''feeding_period_hours'' \<mapsto> VNull]"

definition tank2 :: row where
  "tank2 = [''id'' \<mapsto> serial 2, ''user_id'' \<mapsto> serial 1, ''name'' \<mapsto> VStr ''Tank B'',
            ''size_litres'' \<mapsto> VNull, ''created_at'' \<mapsto> VTime 20,
            ''feeding_volume_grams'' \<mapsto> VNull, ''feeding_period_hours'' \<mapsto> VNull]"

definition alert3 :: row where
  "alert3 = [''id'' \<mapsto> serial 3, ''device_id'' \<mapsto> serial 1, ''ts'' \<mapsto> VTime 400,
             ''message'' \<mapsto> VStr ''pH low'', ''resolved'' \<mapsto> VBool False,
             ''resolved_at'' \<mapsto> VNull]"

definition alert4 :: row where
  "alert4 = [''id'' \<mapsto> serial 4, ''device_id'' \<mapsto> serial 2, ''ts'' \<mapsto> VTime 450,
             ''message'' \<mapsto> VStr ''temperature high'', ''resolved'' \<mapsto> VBool True,
             ''resolved_at'' \<mapsto> VTime 500]"

definition feed_log :: "nat \<Rightarrow> nat \<Rightarrow> int \<Rightarrow> val \<Rightarrow> row" where
  "feed_log i dev t g =
     [''id'' \<mapsto> serial i, ''device_id'' \<mapsto> serial dev, ''ts'' \<mapsto> VTime t,
      ''mode'' \<mapsto> VStr ''MANUAL'', ''volume_grams'' \<mapsto> g, ''actor'' \<mapsto> VStr ''user'']"

definition reading :: "nat \<Rightarrow> int \<Rightarrow> rat \<Rightarrow> row" where
  "reading dev t temp =
     [''device_id'' \<mapsto> serial dev, ''ts'' \<mapsto> VTime t, ''temperature'' \<mapsto> VNum (Fin temp)]"

definition tank_db :: db where
  "tank_db =
     \<lparr>aquariums = [tank1, tank2],
      schedules = [schedule7, schedule8],
      feeding_logs = [feed_log 1 1 90000 (VNum (Fin 5)), feed_log 2 2 95000 (VNum (Fin 7)),
                      feed_log 3 1 100000 (VNum (Fin 3)), feed_log 4 1 180000 (VNum (Fin 10))],
      alerts = [alert3, alert4],
      sensor_data = [reading 1 100 24, reading 2 250 26, reading 1 300 25, reading 1 200 23],
      aquariums_id_seq = 3, schedules_id_seq = 9, feeding_logs_id_seq = 5\<rparr>"

text \<open>A body that carries both required fields of an aquarium, with user 0.\<close>

definition zero_user_body :: row where
  "zero_user_body = [''user_id'' \<mapsto> VNum (Fin 0), ''name'' \<mapsto> VStr ''Tank A'']"


section \<open>Properties of the handlers\<close>

subsection \<open>Binding, projection and the example platform\<close>

lemma bind_param_null:
  "bind_param E t c VUndef = Some VNull" "bind_param E t c VNull = Some VNull"
  by (simp_all add: bind_param_def)

lemma example_reads: "coerce example_env = example_coerce"
  by (simp add: example_env_def)

lemma read_nat_simps:
  "read_nat ''1'' = Some 1" "read_nat ''2'' = Some 2" "read_nat ''3'' = Some 3"
  "read_nat ''4'' = Some 4" "read_nat ''7'' = Some 7" "read_nat ''8'' = Some 8"
  by (simp_all add: read_nat_def digit_def)

lemma returning_aquarium:
  "returning [''id'', ''user_id'', ''name'', ''size_litres'', ''created_at'']
     [''id'' \<mapsto> a, ''user_id'' \<mapsto> b, ''name'' \<mapsto> c, ''size_litres'' \<mapsto> e, ''created_at'' \<mapsto> f]
   = [''id'' \<mapsto> a, ''user_id'' \<mapsto> b, ''name'' \<mapsto> c, ''size_litres'' \<mapsto> e, ''created_at'' \<mapsto> f]"
  by (rule ext) (simp add: returning_def col_def)


subsection \<open>Creating an aquarium\<close>

lemma createAquarium_400:
  "\<not> truthy (field body ''user_id'') \<or> \<not> truthy (field body ''name'')
   \<Longrightarrow> createAquarium E now d body = (reply 400 (Error ''user_id and name required''), d)"
  by (auto simp: createAquarium_def Let_def)

lemma createAquarium_201:
  assumes "truthy (field body ''user_id'')" "truthy (field body ''name'')"
      and "bind_param E ''aquariums'' ''user_id'' (field body ''user_id'') = Some u"
      and "bind_param E ''aquariums'' ''name'' (field body ''name'') = Some n"
      and "bind_param E ''aquariums'' ''size_litres'' (field body ''size_litres'') = Some s"
  shows "createAquarium E now d body =
           (reply 201 (Row [''id'' \<mapsto> serial (aquariums_id_seq d), ''user_id'' \<mapsto> u,
                            ''name'' \<mapsto> n, ''size_litres'' \<mapsto> s, ''created_at'' \<mapsto> VTime now]),
            d\<lparr>aquariums := aquariums d @
                 [[''id'' \<mapsto> serial (aquariums_id_seq d), ''user_id'' \<mapsto> u, ''name'' \<mapsto> n,
                   ''size_litres'' \<mapsto> s, ''created_at'' \<mapsto> VTime now]],
              aquariums_id_seq := Suc (aquariums_id_seq d)\<rparr>)"
  using assms
  by (simp add: createAquarium_def Let_def insert_aquarium_def first_row_def
        creation_time_def returning_aquarium)

text \<open>
  Claim C7, as stated, fails: a body that carries both \<open>user_id\<close> and \<open>name\<close> is still
  answered with 400 when \<open>user_id\<close> is the number 0, because the handler tests
  \<^verbatim>\<open>!user_id || !name\<close>.
\<close>

theorem createAquarium_present_counterexample:
  "zero_user_body ''user_id'' = Some (VNum (Fin 0)) \<and>
   zero_user_body ''name'' = Some (VStr ''Tank A'') \<and>
   createAquarium example_env 0 empty_db zero_user_body =
     (reply 400 (Error ''user_id and name required''), empty_db) \<and>
   status (fst (createAquarium example_env 0 empty_db zero_user_body)) \<noteq> 201"
  by (simp add: zero_user_body_def createAquarium_def field_def reply_def)

text \<open>
  Claim C7, amended: a request in which \<open>user_id\<close> or \<open>name\<close> is missing or falsy is
  answered with 400 and the validation error, and the database is unchanged.  A request
  in which both are truthy, and whose three parameters the engine reads into their
  columns, appends exactly one row to \<open>aquariums\<close> and is answered with 201 and the
  created row, which carries the generated \<open>id\<close> and the \<open>created_at\<close> timestamp besides
  \<open>user_id\<close>, \<open>name\<close> and \<open>size_litres\<close>.
\<close>

theorem createAquarium_truthy_fields:
  "(\<not> truthy (field body ''user_id'') \<or> \<not> truthy (field body ''name'') \<longrightarrow>
      createAquarium E now d body = (reply 400 (Error ''user_id and name required''), d)) \<and>
   (truthy (field body ''user_id'') \<and> truthy (field body ''name'') \<and>
    bind_param E ''aquariums'' ''user_id'' (field body ''user_id'') = Some u \<and>
    bind_param E ''aquariums'' ''name'' (field body ''name'') = Some n \<and>
    bind_param E ''aquariums'' ''size_litres'' (field body ''size_litres'') = Some s \<longrightarrow>
      createAquarium E now d body =
        (reply 201 (Row [''id'' \<mapsto> serial (aquariums_id_seq d), ''user_id'' \<mapsto> u,
                         ''name'' \<mapsto> n, ''size_litres'' \<mapsto> s, ''created_at'' \<mapsto> VTime now]),
         d\<lparr>aquariums := aquariums d @
              [[''id'' \<mapsto> serial (aquariums_id_seq d), ''user_id'' \<mapsto> u, ''name'' \<mapsto> n,
                ''size_litres'' \<mapsto> s, ''created_at'' \<mapsto> VTime now]],
           aquariums_id_seq := Suc (aquariums_id_seq d)\<rparr>))"
  using createAquarium_400 [of body E now d] createAquarium_201 [of body E u n s now d]
  by blast

theorem createAquarium_truthy_fields_witness:
  "createAquarium example_env 1000 empty_db
     [''user_id'' \<mapsto> VNum (Fin 1), ''name'' \<mapsto> VStr ''Tank A'',
      ''size_litres'' \<mapsto> VNum (Fin 50)] =
     (reply 201 (Row [''id'' \<mapsto> serial 1, ''user_id'' \<mapsto> VNum (Fin 1),
                      ''name'' \<mapsto> VStr ''Tank A'', ''size_litres'' \<mapsto> VNum (Fin 50),
                      ''created_at'' \<mapsto> VTime 1000]),
      empty_db\<lparr>aquariums :=
                  [[''id'' \<mapsto> serial 1, ''user_id'' \<mapsto> VNum (Fin 1),
                    ''name'' \<mapsto> VStr ''Tank A'', ''size_litres'' \<mapsto> VNum (Fin 50),
                    ''created_at'' \<mapsto> VTime 1000]],
                aquariums_id_seq := 2\<rparr>) \<and>
   createAquarium example_env 1000 empty_db [''user_id'' \<mapsto> VNum (Fin 1)] =
     (reply 400 (Error ''user_id and name required''), empty_db)"
  using createAquarium_truthy_fields
          [of "[''user_id'' \<mapsto> VNum (Fin 1), ''name'' \<mapsto> VStr ''Tank A'',
                ''size_litres'' \<mapsto> VNum (Fin 50)]"
              example_env 1000 empty_db "VNum (Fin 1)" "VStr ''Tank A''" "VNum (Fin 50)"]
        createAquarium_truthy_fields
          [of "[''user_id'' \<mapsto> VNum (Fin 1)]" example_env 1000 empty_db]
  by (simp add: field_def bind_param_def example_reads example_coerce_def empty_db_def)

text \<open>
  Claim C8: the required-field check of \<open>createAquarium\<close> is a falsiness test.  A request
  whose \<open>user_id\<close> is present but is the number 0 or the empty string, or whose \<open>name\<close>
  is present but is the empty string, is answered with 400 and leaves the database
  unchanged, exactly as the same request without that field is.
\<close>

theorem createAquarium_falsy_as_absent:
  "(field body ''user_id'' \<in> {VNum (Fin 0), VStr ''''} \<longrightarrow>
      createAquarium E now d body = (reply 400 (Error ''user_id and name required''), d) \<and>
      createAquarium E now d body = createAquarium E now d (body(''user_id'' := None))) \<and>
   (field body ''name'' = VStr '''' \<longrightarrow>
      createAquarium E now d body = (reply 400 (Error ''user_id and name required''), d) \<and>
      createAquarium E now d body = createAquarium E now d (body(''name'' := None)))"
  by (auto simp: createAquarium_def Let_def field_def)

theorem createAquarium_falsy_as_absent_witness:
  "createAquarium example_env 0 tank_db zero_user_body =
     (reply 400 (Error ''user_id and name required''), tank_db) \<and>
   createAquarium example_env 0 tank_db zero_user_body =
     createAquarium example_env 0 tank_db (zero_user_body(''user_id'' := None)) \<and>
   createAquarium example_env 0 tank_db [''user_id'' \<mapsto> VNum (Fin 1), ''name'' \<mapsto> VStr ''''] =
     (reply 400 (Error ''user_id and name required''), tank_db)"
proof -
  have zero: "field zero_user_body ''user_id'' \<in> {VNum (Fin 0), VStr ''''}"
    by (simp add: field_def zero_user_body_def)
  have blank:
    "field [''user_id'' \<mapsto> VNum (Fin 1), ''name'' \<mapsto> VStr ''''] ''name'' = VStr ''''"
    by (simp add: field_def)
  from zero blank show ?thesis
    using createAquarium_falsy_as_absent [of zero_user_body example_env 0 tank_db]
          createAquarium_falsy_as_absent
            [of "[''user_id'' \<mapsto> VNum (Fin 1), ''name'' \<mapsto> VStr '''']"
                example_env 0 tank_db]
    by blast
qed


subsection \<open>Updating rows and checking ownership\<close>

lemma length_update_where: "length (update_where hit upd rs) = length rs"
  by (simp add: update_where_def)

lemma nth_update_where:
  "i < length rs \<Longrightarrow>
   update_where hit upd rs ! i = (if hit (rs ! i) then upd (rs ! i) else rs ! i)"
  by (simp add: update_where_def)

lemma update_where_no_hit:
  "\<forall>r \<in> set rs. \<not> hit r \<Longrightarrow> update_where hit upd rs = rs"
  by (induction rs) (simp_all add: update_where_def)

lemma first_hit:
  "filter hit rs \<noteq> [] \<Longrightarrow>
   \<exists>j < length rs. hit (rs ! j) \<and> hd (filter hit rs) = rs ! j"
proof (induction rs)
  case Nil
  then show ?case by simp
next
  case (Cons r rs)
  show ?case
  proof (cases "hit r")
    case True
    then have "hit ((r # rs) ! 0) \<and> hd (filter hit (r # rs)) = (r # rs) ! 0" by simp
    then show ?thesis by blast
  next
    case False
    with Cons obtain j where "j < length rs" "hit (rs ! j)" "hd (filter hit rs) = rs ! j"
      by auto
    with False have "Suc j < length (r # rs) \<and> hit ((r # rs) ! Suc j) \<and>
        hd (filter hit (r # rs)) = (r # rs) ! Suc j"
      by simp
    then show ?thesis by blast
  qed
qed

lemma select_owned_Some:
  "bind_param E t ''id'' p1 = Some k \<Longrightarrow> bind_param E t ''device_id'' p2 = Some dev \<Longrightarrow>
   select_owned E t rs p1 p2 =
     Some (filter (\<lambda>r. sql_eq (col r ''id'') k \<and> sql_eq (col r ''device_id'') dev) rs)"
  by (simp add: select_owned_def)

lemma updateFeedingSetting_404:
  assumes "truthy (field body ''settingId'')"
      and "bind_param E ''schedules'' ''id'' (field body ''settingId'') = Some k"
      and "bind_param E ''schedules'' ''device_id'' (VStr aquariumId) = Some dev"
      and "\<forall>r \<in> set (schedules d). sql_eq (col r ''id'') k \<longrightarrow> \<not> sql_eq (col r ''device_id'') dev"
  shows "updateFeedingSetting E d aquariumId body = (reply 404 (Error ''schedule_not_found''), d)"
proof -
  have "filter (\<lambda>r. sql_eq (col r ''id'') k \<and> sql_eq (col r ''device_id'') dev) (schedules d) = []"
    using assms(4) by (simp add: filter_empty_conv)
  with assms(1-3) show ?thesis
    by (simp add: updateFeedingSetting_def Let_def select_owned_Some)
qed

lemma deleteFeedingSetting_404:
  assumes "bind_param E ''schedules'' ''id'' (VStr settingId) = Some k"
      and "bind_param E ''schedules'' ''device_id'' (VStr aquariumId) = Some dev"
      and "\<forall>r \<in> set (schedules d). sql_eq (col r ''id'') k \<longrightarrow> \<not> sql_eq (col r ''device_id'') dev"
  shows "deleteFeedingSetting E d aquariumId settingId = (reply 404 (Error ''schedule_not_found''), d)"
proof -
  have "filter (\<lambda>r. sql_eq (col r ''id'') k \<and> sql_eq (col r ''device_id'') dev) (schedules d) = []"
    using assms(3) by (simp add: filter_empty_conv)
  with assms(1,2) show ?thesis
    by (simp add: deleteFeedingSetting_def select_owned_Some)
qed

text \<open>
  Claim C1: an update whose body carries a schedule identifier (a truthy \<open>settingId\<close>),
  and a delete whose path carries one, are answered with 404 \<open>schedule_not_found\<close>
  whenever every schedule with that identifier belongs to an aquarium other than the one
  of the path, which includes the case that no schedule has it; the database is then
  unchanged.  The two identifiers are taken as the engine reads them into the columns
  \<open>id\<close> and \<open>device_id\<close>.
\<close>

theorem schedule_of_other_aquarium_not_found:
  "(truthy (field body ''settingId'') \<and>
    bind_param E ''schedules'' ''id'' (field body ''settingId'') = Some k \<and>
    bind_param E ''schedules'' ''device_id'' (VStr aquariumId) = Some dev \<and>
    (\<forall>r \<in> set (schedules d).
        sql_eq (col r ''id'') k \<longrightarrow> \<not> sql_eq (col r ''device_id'') dev) \<longrightarrow>
      updateFeedingSetting E d aquariumId body =
        (reply 404 (Error ''schedule_not_found''), d)) \<and>
   (bind_param E ''schedules'' ''id'' (VStr settingId) = Some k' \<and>
    bind_param E ''schedules'' ''device_id'' (VStr aquariumId) = Some dev \<and>
    (\<forall>r \<in> set (schedules d).
        sql_eq (col r ''id'') k' \<longrightarrow> \<not> sql_eq (col r ''device_id'') dev) \<longrightarrow>
      deleteFeedingSetting E d aquariumId settingId =
        (reply 404 (Error ''schedule_not_found''), d))"
  using updateFeedingSetting_404 [of body E k aquariumId dev d]
        deleteFeedingSetting_404 [of E settingId k' aquariumId dev d]
  by blast

lemma example_binds:
  "bind_param example_env t ''id'' (VStr ''8'') = Some (serial 8)"
  "bind_param example_env t ''id'' (VStr ''7'') = Some (serial 7)"
  "bind_param example_env t ''id'' (VStr ''1'') = Some (serial 1)"
  "bind_param example_env t ''device_id'' (VStr ''1'') = Some (serial 1)"
  "bind_param example_env t ''device_id'' (VStr ''2'') = Some (serial 2)"
  "bind_param example_env t ''id'' (VNum n) = Some (VNum n)"
  by (simp_all add: bind_param_def example_reads example_coerce_def read_nat_def digit_def serial_def)

lemma tank_cols:
  "col schedule7 ''id'' = serial 7" "col schedule7 ''device_id'' = serial 1"
  "col schedule8 ''id'' = serial 8" "col schedule8 ''device_id'' = serial 2"
  by (simp_all add: col_def schedule7_def schedule8_def)

theorem schedule_of_other_aquarium_not_found_witness:
  "updateFeedingSetting example_env tank_db ''1''
     [''settingId'' \<mapsto> VNum (Fin 8), ''enabled'' \<mapsto> VBool True] =
     (reply 404 (Error ''schedule_not_found''), tank_db) \<and>
   deleteFeedingSetting example_env tank_db ''1'' ''8'' =
     (reply 404 (Error ''schedule_not_found''), tank_db)"
  using schedule_of_other_aquarium_not_found
          [of "[''settingId'' \<mapsto> VNum (Fin 8), ''enabled'' \<mapsto> VBool True]"
              example_env "serial 8" "''1''" "serial 1" tank_db "''8''" "serial 8"]
  by (simp add: field_def example_binds tank_cols tank_db_def sql_eq_def serial_def)


subsection \<open>Updating an aquarium\<close>

lemma col_upd_same: "col (r(c \<mapsto> v)) c = v"
  by (simp add: col_def)

lemma col_upd_other: "c' \<noteq> c \<Longrightarrow> col (r(c \<mapsto> v)) c' = col r c'"
  by (simp add: col_def)

lemma set_aquarium_cols:
  "col (set_aquarium n s fv fp r) ''name'' = coalesce n (col r ''name'')"
  "col (set_aquarium n s fv fp r) ''size_litres'' = coalesce s (col r ''size_litres'')"
  "col (set_aquarium n s fv fp r) ''feeding_volume_grams'' =
     coalesce fv (col r ''feeding_volume_grams'')"
  "col (set_aquarium n s fv fp r) ''feeding_period_hours'' =
     coalesce fp (col r ''feeding_period_hours'')"
  by (simp_all add: set_aquarium_def col_upd_same col_upd_other)

lemma set_aquarium_frame:
  "c \<notin> {''name'', ''size_litres'', ''feeding_volume_grams'', ''feeding_period_hours''}
   \<Longrightarrow> set_aquarium n s fv fp r c = r c"
  by (simp add: set_aquarium_def)

lemma update_aquarium_Some:
  assumes "bind_param E ''aquariums'' ''name'' p1 = Some n"
      and "bind_param E ''aquariums'' ''size_litres'' p2 = Some s"
      and "bind_param E ''aquariums'' ''feeding_volume_grams'' p3 = Some fv"
      and "bind_param E ''aquariums'' ''feeding_period_hours'' p4 = Some fp"
      and "bind_param E ''aquariums'' ''id'' p5 = Some k"
  shows "update_aquarium E d p1 p2 p3 p4 p5 =
           Some (map (set_aquarium n s fv fp) (filter (\<lambda>r. sql_eq (col r ''id'') k) (aquariums d)),
                 d\<lparr>aquariums := update_where (\<lambda>r. sql_eq (col r ''id'') k)
                                  (set_aquarium n s fv fp) (aquariums d)\<rparr>)"
  using assms by (simp add: update_aquarium_def Let_def)

lemma updateAquarium_404:
  assumes "bind_param E ''aquariums'' ''name'' (field body ''name'') = Some n"
      and "bind_param E ''aquariums'' ''size_litres'' (field body ''size_litres'') = Some s"
      and "bind_param E ''aquariums'' ''feeding_volume_grams''
             (field body ''feeding_volume_grams'') = Some fv"
      and "bind_param E ''aquariums'' ''feeding_period_hours''
             (field body ''feeding_period_hours'') = Some fp"
      and "bind_param E ''aquariums'' ''id'' (VStr id') = Some k"
      and "\<forall>r \<in> set (aquariums d). \<not> sql_eq (col r ''id'') k"
  shows "updateAquarium E d id' body = (reply 404 (Error ''not_found''), d)"
proof -
  have "filter (\<lambda>r. sql_eq (col r ''id'') k) (aquariums d) = []"
    using assms(6) by (simp add: filter_empty_conv)
  moreover have "update_where (\<lambda>r. sql_eq (col r ''id'') k) (set_aquarium n s fv fp) (aquariums d)
      = aquariums d"
    using assms(6) by (rule update_where_no_hit)
  ultimately show ?thesis
    using assms(1-5) by (simp add: updateAquarium_def Let_def update_aquarium_Some)
qed

lemma updateAquarium_200:
  assumes "bind_param E ''aquariums'' ''name'' (field body ''name'') = Some n"
      and "bind_param E ''aquariums'' ''size_litres'' (field body ''size_litres'') = Some s"
      and "bind_param E ''aquariums'' ''feeding_volume_grams''
             (field body ''feeding_volume_grams'') = Some fv"
      and "bind_param E ''aquariums'' ''feeding_period_hours''
             (field body ''feeding_period_hours'') = Some fp"
      and "bind_param E ''aquariums'' ''id'' (VStr id') = Some k"
      and "\<exists>r \<in> set (aquariums d). sql_eq (col r ''id'') k"
  shows "updateAquarium E d id' body =
           (reply 200 (Row (set_aquarium n s fv fp
                              (hd (filter (\<lambda>r. sql_eq (col r ''id'') k) (aquariums d))))),
            d\<lparr>aquariums := update_where (\<lambda>r. sql_eq (col r ''id'') k)
                              (set_aquarium n s fv fp) (aquariums d)\<rparr>)"
proof -
  obtain r rs where "filter (\<lambda>r. sql_eq (col r ''id'') k) (aquariums d) = r # rs"
    using assms(6) by (cases "filter (\<lambda>r. sql_eq (col r ''id'') k) (aquariums d)")
      (auto simp: filter_empty_conv)
  then show ?thesis
    using assms(1-5)
    by (simp add: updateAquarium_def Let_def update_aquarium_Some first_row_def)
qed

lemma bound_null:
  "bind_param E t c v = Some b \<Longrightarrow> v = VUndef \<or> v = VNull \<Longrightarrow> b = VNull"
  by (auto simp: bind_param_def)

lemma set_aquarium_row:
  assumes "bind_param E ''aquariums'' ''name'' (field body ''name'') = Some n"
      and "bind_param E ''aquariums'' ''size_litres'' (field body ''size_litres'') = Some s"
      and "bind_param E ''aquariums'' ''feeding_volume_grams''
             (field body ''feeding_volume_grams'') = Some fv"
      and "bind_param E ''aquariums'' ''feeding_period_hours''
             (field body ''feeding_period_hours'') = Some fp"
      and "r' = set_aquarium n s fv fp r"
  shows "(\<forall>(c, b) \<in> {(''name'', n), (''size_litres'', s),
                      (''feeding_volume_grams'', fv), (''feeding_period_hours'', fp)}.
            (field body c = VUndef \<or> field body c = VNull \<longrightarrow> col r' c = col r c) \<and>
            (b = VNull \<longrightarrow> col r' c = col r c) \<and>
            (b \<noteq> VNull \<longrightarrow> col r' c = b)) \<and>
         (\<forall>c. c \<notin> {''name'', ''size_litres'', ''feeding_volume_grams'',
                     ''feeding_period_hours''} \<longrightarrow> r' c = r c)"
proof -
  have "field body ''name'' = VUndef \<or> field body ''name'' = VNull \<Longrightarrow> n = VNull"
    "field body ''size_litres'' = VUndef \<or> field body ''size_litres'' = VNull \<Longrightarrow> s = VNull"
    "field body ''feeding_volume_grams'' = VUndef \<or> field body ''feeding_volume_grams'' = VNull
       \<Longrightarrow> fv = VNull"
    "field body ''feeding_period_hours'' = VUndef \<or> field body ''feeding_period_hours'' = VNull
       \<Longrightarrow> fp = VNull"
    using assms(1-4) by (auto dest: bound_null)
  then show ?thesis
    by (simp add: assms(5) set_aquarium_cols set_aquarium_frame coalesce_def)
qed

text \<open>
  Claim C2: let the engine read the four fields of the body and the path's id into their
  columns.  If no aquarium has the id, the request is answered with 404 and the database
  is unchanged.  Otherwise the answer is 200 with an updated row, only the table
  \<open>aquariums\<close> changes, and in it only the rows with that id: there, each of \<open>name\<close>,
  \<open>size_litres\<close>, \<open>feeding_volume_grams\<close> and \<open>feeding_period_hours\<close> keeps its stored
  value when the body omits the field or gives \<open>null\<close> (the bound parameter is then
  \<open>NULL\<close>) and takes the bound value when that is not \<open>NULL\<close>, and every other column
  is as before.
\<close>

theorem updateAquarium_merges_on_null:
  assumes "bind_param E ''aquariums'' ''name'' (field body ''name'') = Some n"
      and "bind_param E ''aquariums'' ''size_litres'' (field body ''size_litres'') = Some s"
      and "bind_param E ''aquariums'' ''feeding_volume_grams''
             (field body ''feeding_volume_grams'') = Some fv"
      and "bind_param E ''aquariums'' ''feeding_period_hours''
             (field body ''feeding_period_hours'') = Some fp"
      and "bind_param E ''aquariums'' ''id'' (VStr id') = Some k"
  shows
    "((\<forall>r \<in> set (aquariums d). \<not> sql_eq (col r ''id'') k) \<longrightarrow>
        updateAquarium E d id' body = (reply 404 (Error ''not_found''), d)) \<and>
     ((\<exists>r \<in> set (aquariums d). sql_eq (col r ''id'') k) \<longrightarrow>
        (\<exists>rows j.
           updateAquarium E d id' body = (reply 200 (Row (rows ! j)), d\<lparr>aquariums := rows\<rparr>) \<and>
           length rows = length (aquariums d) \<and>
           j < length rows \<and> sql_eq (col (aquariums d ! j) ''id'') k \<and>
           (\<forall>i < length rows.
              if sql_eq (col (aquariums d ! i) ''id'') k
              then (\<forall>(c, b) \<in> {(''name'', n), (''size_litres'', s),
                                (''feeding_volume_grams'', fv), (''feeding_period_hours'', fp)}.
                      (field body c = VUndef \<or> field body c = VNull \<longrightarrow>
                         col (rows ! i) c = col (aquariums d ! i) c) \<and>
                      (b = VNull \<longrightarrow> col (rows ! i) c = col (aquariums d ! i) c) \<and>
                      (b \<noteq> VNull \<longrightarrow> col (rows ! i) c = b)) \<and>
                   (\<forall>c. c \<notin> {''name'', ''size_litres'', ''feeding_volume_grams'',
                               ''feeding_period_hours''} \<longrightarrow>
                        (rows ! i) c = (aquariums d ! i) c)
              else rows ! i = aquariums d ! i)))"
    (is "(?none \<longrightarrow> ?not_found) \<and> (?some \<longrightarrow> (\<exists>rows j. ?updated rows j))")
proof (intro conjI impI)
  assume ?none
  with assms show ?not_found by (rule updateAquarium_404)
next
  let ?hit = "\<lambda>r. sql_eq (col r ''id'') k"
  let ?upd = "set_aquarium n s fv fp"
  let ?rows = "update_where ?hit ?upd (aquariums d)"
  assume some: ?some
  then have "filter ?hit (aquariums d) \<noteq> []"
    by (simp add: filter_empty_conv)
  then obtain j where j: "j < length (aquariums d)" "?hit (aquariums d ! j)"
      "hd (filter ?hit (aquariums d)) = aquariums d ! j"
    using first_hit [of ?hit "aquariums d"] by blast
  have "updateAquarium E d id' body =
      (reply 200 (Row (?upd (hd (filter ?hit (aquariums d))))), d\<lparr>aquariums := ?rows\<rparr>)"
    using assms some by (rule updateAquarium_200)
  moreover have "?rows ! j = ?upd (hd (filter ?hit (aquariums d)))"
    using j by (simp add: nth_update_where length_update_where)
  ultimately have run:
    "updateAquarium E d id' body = (reply 200 (Row (?rows ! j)), d\<lparr>aquariums := ?rows\<rparr>)"
    by simp
  have "?updated ?rows j"
  proof (intro conjI allI impI)
    fix i assume "i < length ?rows"
    then have i: "?rows ! i = (if ?hit (aquariums d ! i) then ?upd (aquariums d ! i)
                               else aquariums d ! i)"
      by (simp add: nth_update_where length_update_where)
    show "if ?hit (aquariums d ! i)
          then (\<forall>(c, b) \<in> {(''name'', n), (''size_litres'', s),
                            (''feeding_volume_grams'', fv), (''feeding_period_hours'', fp)}.
                  (field body c = VUndef \<or> field body c = VNull \<longrightarrow>
                     col (?rows ! i) c = col (aquariums d ! i) c) \<and>
                  (b = VNull \<longrightarrow> col (?rows ! i) c = col (aquariums d ! i) c) \<and>
                  (b \<noteq> VNull \<longrightarrow> col (?rows ! i) c = b)) \<and>
               (\<forall>c. c \<notin> {''name'', ''size_litres'', ''feeding_volume_grams'',
                           ''feeding_period_hours''} \<longrightarrow>
                    (?rows ! i) c = (aquariums d ! i) c)
          else ?rows ! i = aquariums d ! i"
    proof (cases "?hit (aquariums d ! i)")
      case True
      with i have "?rows ! i = ?upd (aquariums d ! i)" by simp
      with assms(1-4) True show ?thesis
        using set_aquarium_row [of E body n s fv fp "?rows ! i" "aquariums d ! i"] by simp
    next
      case False
      with i show ?thesis by simp
    qed
  qed (use run j in \<open>simp_all add: length_update_where\<close>)
  then show "\<exists>rows j. ?updated rows j" by blast
qed

lemma tank_binds:
  "bind_param example_env ''aquariums'' ''name'' v = Some (if v = VUndef then VNull else v)"
  "bind_param example_env ''aquariums'' ''size_litres'' v = Some (if v = VUndef then VNull else v)"
  "bind_param example_env ''aquariums'' ''feeding_volume_grams'' v =
     Some (if v = VUndef then VNull else v)"
  "bind_param example_env ''aquariums'' ''feeding_period_hours'' v =
     Some (if v = VUndef then VNull else v)"
  by (simp_all add: bind_param_def example_reads example_coerce_def)

theorem updateAquarium_merges_on_null_witness:
  "updateAquarium example_env tank_db ''1'' [''name'' \<mapsto> VStr ''Reef'', ''size_litres'' \<mapsto> VNull] =
     (reply 200 (Row (tank1(''name'' \<mapsto> VStr ''Reef''))),
      tank_db\<lparr>aquariums := [tank1(''name'' \<mapsto> VStr ''Reef''), tank2]\<rparr>) \<and>
   updateAquarium example_env tank_db ''4'' [''name'' \<mapsto> VStr ''Reef'', ''size_litres'' \<mapsto> VNull] =
     (reply 404 (Error ''not_found''), tank_db)"
proof
  have reef: "set_aquarium (VStr ''Reef'') VNull VNull VNull tank1 = tank1(''name'' \<mapsto> VStr ''Reef'')"
    by (rule ext) (simp add: set_aquarium_def coalesce_def col_def tank1_def)
  have tanks: "aquariums tank_db = [tank1, tank2]"
    by (simp add: tank_db_def)
  have one: "sql_eq (col tank1 ''id'') (serial 1)" "\<not> sql_eq (col tank2 ''id'') (serial 1)"
    by (simp_all add: tank1_def tank2_def col_def sql_eq_def serial_def)
  then have "updateAquarium example_env tank_db ''1''
               [''name'' \<mapsto> VStr ''Reef'', ''size_litres'' \<mapsto> VNull] =
      (reply 200 (Row (set_aquarium (VStr ''Reef'') VNull VNull VNull
                         (hd (filter (\<lambda>r. sql_eq (col r ''id'') (serial 1)) (aquariums tank_db))))),
       tank_db\<lparr>aquariums := update_where (\<lambda>r. sql_eq (col r ''id'') (serial 1))
                              (set_aquarium (VStr ''Reef'') VNull VNull VNull)
                              (aquariums tank_db)\<rparr>)"
    by (intro updateAquarium_200) (simp_all add: tank_binds example_binds field_def tanks)
  then show "updateAquarium example_env tank_db ''1''
               [''name'' \<mapsto> VStr ''Reef'', ''size_litres'' \<mapsto> VNull] =
     (reply 200 (Row (tank1(''name'' \<mapsto> VStr ''Reef''))),
      tank_db\<lparr>aquariums := [tank1(''name'' \<mapsto> VStr ''Reef''), tank2]\<rparr>)"
    using one by (simp add: tanks reef update_where_def)
next
  have "\<forall>r \<in> set (aquariums tank_db). \<not> sql_eq (col r ''id'') (serial 4)"
    by (simp add: tank_db_def tank1_def tank2_def col_def sql_eq_def serial_def)
  then show "updateAquarium example_env tank_db ''4''
               [''name'' \<mapsto> VStr ''Reef'', ''size_litres'' \<mapsto> VNull] =
     (reply 404 (Error ''not_found''), tank_db)"
    using updateAquarium_merges_on_null
            [of example_env "[''name'' \<mapsto> VStr ''Reef'', ''size_litres'' \<mapsto> VNull]"
                "VStr ''Reef''" VNull VNull VNull "''4''" "serial 4" tank_db]
    by (simp add: tank_binds field_def bind_param_def example_reads example_coerce_def read_nat_simps)
qed


subsection \<open>Resolving an alert\<close>

lemma set_alert_cols:
  "col (set_alert now flag r) ''resolved'' = VBool flag"
  "col (set_alert now flag r) ''resolved_at'' = (if flag then VTime now else VNull)"
  by (simp_all add: set_alert_def col_upd_same col_upd_other)

lemma set_alert_frame:
  "c \<notin> {''resolved'', ''resolved_at''} \<Longrightarrow> set_alert now flag r c = r c"
  by (simp add: set_alert_def)

lemma updateAlertStatus_200:
  assumes "truthy (field body ''alertId'')"
      and "bind_param E ''alerts'' ''id'' (field body ''alertId'') = Some k"
      and "bind_param E ''alerts'' ''device_id'' (VStr aquariumId) = Some dev"
      and "\<exists>r \<in> set (alerts d). sql_eq (col r ''id'') k \<and> sql_eq (col r ''device_id'') dev"
      and "flag = (field body ''resolved'' = VBool True \<or> field body ''resolved'' = VStr ''true'')"
  shows "updateAlertStatus E now d aquariumId body =
           (reply 200 (Row (set_alert now flag
                              (hd (filter (\<lambda>r. sql_eq (col r ''id'') k) (alerts d))))),
            d\<lparr>alerts := update_where (\<lambda>r. sql_eq (col r ''id'') k) (set_alert now flag)
                           (alerts d)\<rparr>)"
proof -
  have "filter (\<lambda>r. sql_eq (col r ''id'') k \<and> sql_eq (col r ''device_id'') dev) (alerts d) \<noteq> []"
    using assms(4) by (simp add: filter_empty_conv)
  moreover obtain r rs where "filter (\<lambda>r. sql_eq (col r ''id'') k) (alerts d) = r # rs"
    using assms(4) by (cases "filter (\<lambda>r. sql_eq (col r ''id'') k) (alerts d)")
      (auto simp: filter_empty_conv)
  ultimately show ?thesis
    using assms(1-3,5)
    by (simp add: updateAlertStatus_def Let_def select_owned_Some update_alert_def first_row_def)
qed

lemma updateAlertStatus_rows:
  assumes "truthy (field body ''alertId'')"
      and "bind_param E ''alerts'' ''id'' (field body ''alertId'') = Some k"
      and "bind_param E ''alerts'' ''device_id'' (VStr aquariumId) = Some dev"
      and "\<exists>r \<in> set (alerts d). sql_eq (col r ''id'') k \<and> sql_eq (col r ''device_id'') dev"
      and "flag = (field body ''resolved'' = VBool True \<or> field body ''resolved'' = VStr ''true'')"
  shows "\<exists>rows j.
           updateAlertStatus E now d aquariumId body =
             (reply 200 (Row (rows ! j)), d\<lparr>alerts := rows\<rparr>) \<and>
           length rows = length (alerts d) \<and>
           j < length rows \<and> sql_eq (col (alerts d ! j) ''id'') k \<and>
           (\<forall>i < length rows.
              rows ! i = (if sql_eq (col (alerts d ! i) ''id'') k
                          then set_alert now flag (alerts d ! i) else alerts d ! i))"
proof -
  let ?hit = "\<lambda>r. sql_eq (col r ''id'') k"
  let ?rows = "update_where ?hit (set_alert now flag) (alerts d)"
  have "filter ?hit (alerts d) \<noteq> []"
    using assms(4) by (auto simp: filter_empty_conv)
  then obtain j where j: "j < length (alerts d)" "?hit (alerts d ! j)"
      "hd (filter ?hit (alerts d)) = alerts d ! j"
    using first_hit [of ?hit "alerts d"] by blast
  have "updateAlertStatus E now d aquariumId body =
      (reply 200 (Row (set_alert now flag (hd (filter ?hit (alerts d))))), d\<lparr>alerts := ?rows\<rparr>)"
    using assms by (rule updateAlertStatus_200)
  moreover have "?rows ! j = set_alert now flag (hd (filter ?hit (alerts d)))"
    using j by (simp add: nth_update_where length_update_where)
  ultimately have "updateAlertStatus E now d aquariumId body =
      (reply 200 (Row (?rows ! j)), d\<lparr>alerts := ?rows\<rparr>)"
    by simp
  with j have "updateAlertStatus E now d aquariumId body =
             (reply 200 (Row (?rows ! j)), d\<lparr>alerts := ?rows\<rparr>) \<and>
           length ?rows = length (alerts d) \<and>
           j < length ?rows \<and> sql_eq (col (alerts d ! j) ''id'') k \<and>
           (\<forall>i < length ?rows.
              ?rows ! i = (if sql_eq (col (alerts d ! i) ''id'') k
                          then set_alert now flag (alerts d ! i) else alerts d ! i))"
    by (simp add: nth_update_where length_update_where)
  then show ?thesis by blast
qed

text \<open>
  Claim C3: let the body carry an alert identifier (a truthy \<open>alertId\<close>) and let the
  ownership check pass: some alert has that identifier and the aquarium of the path.  Then
  the request is answered with 200 and an updated alert, and afterwards every alert with
  that identifier has \<open>resolved\<close> equal to the flag, \<open>resolved_at\<close> equal to the current
  time when the flag is true and \<open>NULL\<close> when it is false, so \<open>resolved_at\<close> is not
  \<open>NULL\<close> exactly when the flag is true; its other columns, the other alerts and the other
  tables are unchanged.  The flag is true exactly for the body values \<open>true\<close> and
  \<open>'true'\<close>.  Nothing is asked of the alert's earlier state, so a resolved alert can be
  set back to unresolved.
\<close>

theorem updateAlertStatus_stamps_resolution:
  assumes "truthy (field body ''alertId'')"
      and "bind_param E ''alerts'' ''id'' (field body ''alertId'') = Some k"
      and "bind_param E ''alerts'' ''device_id'' (VStr aquariumId) = Some dev"
      and "\<exists>r \<in> set (alerts d). sql_eq (col r ''id'') k \<and> sql_eq (col r ''device_id'') dev"
      and "flag = (field body ''resolved'' = VBool True \<or> field body ''resolved'' = VStr ''true'')"
  shows "\<exists>rows j.
           updateAlertStatus E now d aquariumId body =
             (reply 200 (Row (rows ! j)), d\<lparr>alerts := rows\<rparr>) \<and>
           length rows = length (alerts d) \<and>
           j < length rows \<and> sql_eq (col (alerts d ! j) ''id'') k \<and>
           (\<forall>i < length rows.
              if sql_eq (col (alerts d ! i) ''id'') k
              then col (rows ! i) ''resolved'' = VBool flag \<and>
                   (flag \<longrightarrow> col (rows ! i) ''resolved_at'' = VTime now) \<and>
                   (\<not> flag \<longrightarrow> col (rows ! i) ''resolved_at'' = VNull) \<and>
                   (col (rows ! i) ''resolved_at'' \<noteq> VNull) = flag \<and>
                   (\<forall>c. c \<notin> {''resolved'', ''resolved_at''} \<longrightarrow>
                        (rows ! i) c = (alerts d ! i) c)
              else rows ! i = alerts d ! i)"
proof -
  obtain rows j where run:
      "updateAlertStatus E now d aquariumId body =
         (reply 200 (Row (rows ! j)), d\<lparr>alerts := rows\<rparr>)"
      "length rows = length (alerts d)" "j < length rows"
      "sql_eq (col (alerts d ! j) ''id'') k"
    and each: "\<forall>i < length rows.
        rows ! i = (if sql_eq (col (alerts d ! i) ''id'') k
                    then set_alert now flag (alerts d ! i) else alerts d ! i)"
    using updateAlertStatus_rows [OF assms, of now] by blast
  have "\<forall>i < length rows.
          if sql_eq (col (alerts d ! i) ''id'') k
          then col (rows ! i) ''resolved'' = VBool flag \<and>
               (flag \<longrightarrow> col (rows ! i) ''resolved_at'' = VTime now) \<and>
               (\<not> flag \<longrightarrow> col (rows ! i) ''resolved_at'' = VNull) \<and>
               (col (rows ! i) ''resolved_at'' \<noteq> VNull) = flag \<and>
               (\<forall>c. c \<notin> {''resolved'', ''resolved_at''} \<longrightarrow> (rows ! i) c = (alerts d ! i) c)
          else rows ! i = alerts d ! i"
    using each by (simp add: set_alert_cols set_alert_frame)
  with run show ?thesis by blast
qed

text \<open>
  Claim C9: under the same conditions, a \<open>resolved\<close> of the body that is neither the
  boolean \<open>true\<close> nor the string \<open>'true'\<close> (so \<open>false\<close>, \<open>'false'\<close>, \<open>'True'\<close>, \<open>1\<close>,
  \<open>null\<close> or no field at all) marks every alert with that identifier unresolved and sets
  its \<open>resolved_at\<close> to \<open>NULL\<close>.
\<close>

theorem updateAlertStatus_other_values_unresolve:
  assumes "truthy (field body ''alertId'')"
      and "bind_param E ''alerts'' ''id'' (field body ''alertId'') = Some k"
      and "bind_param E ''alerts'' ''device_id'' (VStr aquariumId) = Some dev"
      and "\<exists>r \<in> set (alerts d). sql_eq (col r ''id'') k \<and> sql_eq (col r ''device_id'') dev"
      and "field body ''resolved'' \<noteq> VBool True" and "field body ''resolved'' \<noteq> VStr ''true''"
  shows "\<exists>rows j.
           updateAlertStatus E now d aquariumId body =
             (reply 200 (Row (rows ! j)), d\<lparr>alerts := rows\<rparr>) \<and>
           length rows = length (alerts d) \<and>
           j < length rows \<and> sql_eq (col (alerts d ! j) ''id'') k \<and>
           (\<forall>i < length rows.
              if sql_eq (col (alerts d ! i) ''id'') k
              then col (rows ! i) ''resolved'' = VBool False \<and>
                   col (rows ! i) ''resolved_at'' = VNull
              else rows ! i = alerts d ! i)"
proof -
  have flag: "False = (field body ''resolved'' = VBool True \<or> field body ''resolved'' = VStr ''true'')"
    using assms(5,6) by simp
  obtain rows j where run:
      "updateAlertStatus E now d aquariumId body =
         (reply 200 (Row (rows ! j)), d\<lparr>alerts := rows\<rparr>)"
      "length rows = length (alerts d)" "j < length rows"
      "sql_eq (col (alerts d ! j) ''id'') k"
    and each: "\<forall>i < length rows.
        rows ! i = (if sql_eq (col (alerts d ! i) ''id'') k
                    then set_alert now False (alerts d ! i) else alerts d ! i)"
    using updateAlertStatus_rows [OF assms(1-4) flag, of now] by blast
  have "\<forall>i < length rows.
          if sql_eq (col (alerts d ! i) ''id'') k
          then col (rows ! i) ''resolved'' = VBool False \<and> col (rows ! i) ''resolved_at'' = VNull
          else rows ! i = alerts d ! i"
    using each by (simp add: set_alert_cols)
  with run show ?thesis by blast
qed


lemma tank_alerts:
  "alerts tank_db = [alert3, alert4]"
  "col alert3 ''id'' = serial 3" "col alert3 ''device_id'' = serial 1"
  "col alert4 ''id'' = serial 4" "col alert4 ''device_id'' = serial 2"
  by (simp_all add: tank_db_def alert3_def alert4_def col_def)

lemma serial_eq: "sql_eq (serial a) (serial b) = (a = b)"
  by (simp add: sql_eq_def serial_def)

theorem updateAlertStatus_stamps_resolution_witness:
  "updateAlertStatus example_env 600 tank_db ''1''
     [''alertId'' \<mapsto> VNum (Fin 3), ''resolved'' \<mapsto> VStr ''true''] =
     (reply 200 (Row (alert3(''resolved'' \<mapsto> VBool True, ''resolved_at'' \<mapsto> VTime 600))),
      tank_db\<lparr>alerts := [alert3(''resolved'' \<mapsto> VBool True, ''resolved_at'' \<mapsto> VTime 600),
                           alert4]\<rparr>) \<and>
   (\<exists>rows j. updateAlertStatus example_env 700 tank_db ''2''
                [''alertId'' \<mapsto> VNum (Fin 4), ''resolved'' \<mapsto> VBool False] =
                (reply 200 (Row (rows ! j)), tank_db\<lparr>alerts := rows\<rparr>) \<and>
              rows ! 0 = alert3 \<and>
              col alert4 ''resolved'' = VBool True \<and>
              col (rows ! 1) ''resolved'' = VBool False \<and>
              col (rows ! 1) ''resolved_at'' = VNull)"
proof
  let ?body = "[''alertId'' \<mapsto> VNum (Fin 3), ''resolved'' \<mapsto> VStr ''true'']"
  have "updateAlertStatus example_env 600 tank_db ''1'' ?body =
      (reply 200 (Row (set_alert 600 True
                         (hd (filter (\<lambda>r. sql_eq (col r ''id'') (serial 3)) (alerts tank_db))))),
       tank_db\<lparr>alerts := update_where (\<lambda>r. sql_eq (col r ''id'') (serial 3)) (set_alert 600 True)
                           (alerts tank_db)\<rparr>)"
    by (rule updateAlertStatus_200 [where dev = "serial 1"])
      (simp_all add: field_def example_binds tank_alerts serial_def sql_eq_def)
  then show "updateAlertStatus example_env 600 tank_db ''1'' ?body =
     (reply 200 (Row (alert3(''resolved'' \<mapsto> VBool True, ''resolved_at'' \<mapsto> VTime 600))),
      tank_db\<lparr>alerts := [alert3(''resolved'' \<mapsto> VBool True, ''resolved_at'' \<mapsto> VTime 600),
                           alert4]\<rparr>)"
    by (simp add: tank_alerts update_where_def set_alert_def serial_eq)
next
  let ?body = "[''alertId'' \<mapsto> VNum (Fin 4), ''resolved'' \<mapsto> VBool False]"
  obtain rows j where run:
      "updateAlertStatus example_env 700 tank_db ''2'' ?body =
         (reply 200 (Row (rows ! j)), tank_db\<lparr>alerts := rows\<rparr>)"
      "length rows = length (alerts tank_db)"
    and each: "\<forall>i < length rows.
        if sql_eq (col (alerts tank_db ! i) ''id'') (serial 4)
        then col (rows ! i) ''resolved'' = VBool False \<and>
             (False \<longrightarrow> col (rows ! i) ''resolved_at'' = VTime 700) \<and>
             (\<not> False \<longrightarrow> col (rows ! i) ''resolved_at'' = VNull) \<and>
             (col (rows ! i) ''resolved_at'' \<noteq> VNull) = False \<and>
             (\<forall>c. c \<notin> {''resolved'', ''resolved_at''} \<longrightarrow> (rows ! i) c = (alerts tank_db ! i) c)
        else rows ! i = alerts tank_db ! i"
    using updateAlertStatus_stamps_resolution
            [of ?body example_env "serial 4" "''2''" "serial 2" tank_db False 700]
    by (auto simp: field_def example_binds tank_alerts serial_def sql_eq_def)
  from run(2) each have "rows ! 0 = alert3" "col (rows ! 1) ''resolved'' = VBool False"
      "col (rows ! 1) ''resolved_at'' = VNull"
    by (simp_all add: tank_alerts serial_eq)
  moreover have "col alert4 ''resolved'' = VBool True"
    by (simp add: alert4_def col_def)
  ultimately show "\<exists>rows j. updateAlertStatus example_env 700 tank_db ''2'' ?body =
                (reply 200 (Row (rows ! j)), tank_db\<lparr>alerts := rows\<rparr>) \<and>
              rows ! 0 = alert3 \<and>
              col alert4 ''resolved'' = VBool True \<and>
              col (rows ! 1) ''resolved'' = VBool False \<and>
              col (rows ! 1) ''resolved_at'' = VNull"
    using run(1) by blast
qed

theorem updateAlertStatus_other_values_unresolve_witness:
  "\<exists>rows j. updateAlertStatus example_env 700 tank_db ''2''
               [''alertId'' \<mapsto> VStr ''4'', ''resolved'' \<mapsto> VStr ''True''] =
               (reply 200 (Row (rows ! j)), tank_db\<lparr>alerts := rows\<rparr>) \<and>
             rows ! 0 = alert3 \<and>
             col alert4 ''resolved_at'' = VTime 500 \<and>
             col (rows ! 1) ''resolved'' = VBool False \<and>
             col (rows ! 1) ''resolved_at'' = VNull"
proof -
  let ?body = "[''alertId'' \<mapsto> VStr ''4'', ''resolved'' \<mapsto> VStr ''True'']"
  have four: "bind_param example_env ''alerts'' ''id'' (VStr ''4'') = Some (serial 4)"
    by (simp add: bind_param_def example_reads example_coerce_def read_nat_simps)
  obtain rows j where run:
      "updateAlertStatus example_env 700 tank_db ''2'' ?body =
         (reply 200 (Row (rows ! j)), tank_db\<lparr>alerts := rows\<rparr>)"
      "length rows = length (alerts tank_db)"
    and each: "\<forall>i < length rows.
        if sql_eq (col (alerts tank_db ! i) ''id'') (serial 4)
        then col (rows ! i) ''resolved'' = VBool False \<and> col (rows ! i) ''resolved_at'' = VNull
        else rows ! i = alerts tank_db ! i"
    using updateAlertStatus_other_values_unresolve
            [of ?body example_env "serial 4" "''2''" "serial 2" tank_db 700]
    by (auto simp: field_def example_binds four tank_alerts serial_eq)
  from run(2) each have "rows ! 0 = alert3" "col (rows ! 1) ''resolved'' = VBool False"
      "col (rows ! 1) ''resolved_at'' = VNull"
    by (simp_all add: tank_alerts serial_eq)
  moreover have "col alert4 ''resolved_at'' = VTime 500"
    by (simp add: alert4_def col_def)
  ultimately show ?thesis
    using run(1) by blast
qed


subsection \<open>Feeding by hand\<close>

lemma returning_feeding_log:
  "returning [''id'', ''device_id'', ''ts'', ''mode'', ''volume_grams'', ''actor'']
     [''id'' \<mapsto> a, ''device_id'' \<mapsto> b, ''ts'' \<mapsto> c, ''mode'' \<mapsto> e, ''volume_grams'' \<mapsto> f,
      ''actor'' \<mapsto> g]
   = [''id'' \<mapsto> a, ''device_id'' \<mapsto> b, ''ts'' \<mapsto> c, ''mode'' \<mapsto> e, ''volume_grams'' \<mapsto> f,
      ''actor'' \<mapsto> g]"
  by (rule ext) (simp add: returning_def col_def)

lemma feed_volume:
  "js_or (toNumber E v) VNull =
     (if v = VUndef \<or> v = VNull \<or> Number E v = NaN \<or> Number E v = Fin 0 then VNull
      else VNum (Number E v))"
  by (auto simp: js_or_def toNumber_def)

lemma triggerFeed_201:
  assumes "bind_param E ''feeding_logs'' ''device_id'' (VStr aquariumId) = Some dev"
      and "bind_param E ''feeding_logs'' ''volume_grams''
             (if field body ''volume_grams'' = VUndef \<or> field body ''volume_grams'' = VNull \<or>
                 Number E (field body ''volume_grams'') = NaN \<or>
                 Number E (field body ''volume_grams'') = Fin 0
              then VNull else VNum (Number E (field body ''volume_grams''))) = Some v"
      and "bind_param E ''feeding_logs'' ''actor''
             (if truthy (field body ''actor'') then field body ''actor'' else VStr ''user'')
           = Some a"
  shows "triggerFeed E now d aquariumId body =
           (reply 201 (Feeding (Row [''id'' \<mapsto> serial (feeding_logs_id_seq d), ''device_id'' \<mapsto> dev,
                                     ''ts'' \<mapsto> VTime now, ''mode'' \<mapsto> VStr ''MANUAL'',
                                     ''volume_grams'' \<mapsto> v, ''actor'' \<mapsto> a])),
            d\<lparr>feeding_logs := feeding_logs d @
                 [[''id'' \<mapsto> serial (feeding_logs_id_seq d), ''device_id'' \<mapsto> dev,
                   ''ts'' \<mapsto> VTime now, ''mode'' \<mapsto> VStr ''MANUAL'',
                   ''volume_grams'' \<mapsto> v, ''actor'' \<mapsto> a]],
              feeding_logs_id_seq := Suc (feeding_logs_id_seq d)\<rparr>)"
proof -
  have "bind_param E ''feeding_logs'' ''volume_grams''
          (js_or (toNumber E (field body ''volume_grams'')) VNull) = Some v"
    using assms(2) by (simp only: feed_volume)
  moreover have "bind_param E ''feeding_logs'' ''actor''
          (js_or (field body ''actor'') (VStr ''user'')) = Some a"
    using assms(3) by (simp only: js_or_def)
  ultimately show ?thesis
    using assms(1)
    by (simp add: triggerFeed_def Let_def insert_feeding_log_def first_row_def creation_time_def
          returning_feeding_log)
qed

text \<open>
  Claim C4, as stated, fails: a negative \<open>volume_grams\<close> does not collapse to null.
  \<^verbatim>\<open>toNumber(-5) || null\<close> is \<open>-5\<close>, which is truthy, and the feeding log is stored
  with \<open>volume_grams = -5\<close>.  The same request carries an \<open>actor\<close>, the empty string,
  and the log is stored with the actor \<open>'user'\<close>, because \<^verbatim>\<open>actor || 'user'\<close> tests
  truthiness, not presence.
\<close>

theorem triggerFeed_negative_volume_counterexample:
  "triggerFeed example_env 1000 tank_db ''1''
     [''volume_grams'' \<mapsto> VNum (Fin (- 5)), ''actor'' \<mapsto> VStr ''''] =
     (reply 201 (Feeding (Row (feed_log 5 1 1000 (VNum (Fin (- 5)))))),
      tank_db\<lparr>feeding_logs := feeding_logs tank_db @ [feed_log 5 1 1000 (VNum (Fin (- 5)))],
               feeding_logs_id_seq := 6\<rparr>) \<and>
   col (feed_log 5 1 1000 (VNum (Fin (- 5)))) ''volume_grams'' = VNum (Fin (- 5)) \<and>
   col (feed_log 5 1 1000 (VNum (Fin (- 5)))) ''volume_grams'' \<noteq> VNull \<and>
   col (feed_log 5 1 1000 (VNum (Fin (- 5)))) ''actor'' = VStr ''user''"
proof -
  have "triggerFeed example_env 1000 tank_db ''1''
          [''volume_grams'' \<mapsto> VNum (Fin (- 5)), ''actor'' \<mapsto> VStr ''''] =
      (reply 201 (Feeding (Row [''id'' \<mapsto> serial (feeding_logs_id_seq tank_db),
                                ''device_id'' \<mapsto> serial 1, ''ts'' \<mapsto> VTime 1000,
                                ''mode'' \<mapsto> VStr ''MANUAL'', ''volume_grams'' \<mapsto> VNum (Fin (- 5)),
                                ''actor'' \<mapsto> VStr ''user''])),
       tank_db\<lparr>feeding_logs := feeding_logs tank_db @
                  [[''id'' \<mapsto> serial (feeding_logs_id_seq tank_db), ''device_id'' \<mapsto> serial 1,
                    ''ts'' \<mapsto> VTime 1000, ''mode'' \<mapsto> VStr ''MANUAL'',
                    ''volume_grams'' \<mapsto> VNum (Fin (- 5)), ''actor'' \<mapsto> VStr ''user'']],
                feeding_logs_id_seq := Suc (feeding_logs_id_seq tank_db)\<rparr>)"
  proof (rule triggerFeed_201)
    show "bind_param example_env ''feeding_logs'' ''device_id'' (VStr ''1'') = Some (serial 1)"
      by (rule example_binds)
  qed (simp_all add: field_def bind_param_def example_reads example_coerce_def)
  moreover have "feeding_logs_id_seq tank_db = 5"
    by (simp add: tank_db_def)
  ultimately show ?thesis
    by (simp add: feed_log_def col_def)
qed

text \<open>
  Claim C4, amended: a manual feed whose three parameters the engine reads into their
  columns appends exactly one row to \<open>feeding_logs\<close> and is answered with 201 and that row.
  The row has \<open>mode = 'MANUAL'\<close>, the time of creation as \<open>ts\<close>, as \<open>actor\<close> the body's
  \<open>actor\<close> when that is truthy and \<open>'user'\<close> otherwise, and as \<open>volume_grams\<close> \<open>NULL\<close>
  when the body's value is absent, \<open>null\<close>, or converts to 0 or \<open>NaN\<close>, and the converted
  number otherwise.  So zero collapses to \<open>NULL\<close>, and every other number, a negative one
  included, is stored as it is.
\<close>

theorem triggerFeed_normalises:
  assumes "bind_param E ''feeding_logs'' ''device_id'' (VStr aquariumId) = Some dev"
      and "bind_param E ''feeding_logs'' ''volume_grams''
             (if field body ''volume_grams'' = VUndef \<or> field body ''volume_grams'' = VNull \<or>
                 Number E (field body ''volume_grams'') = NaN \<or>
                 Number E (field body ''volume_grams'') = Fin 0
              then VNull else VNum (Number E (field body ''volume_grams''))) = Some v"
      and "bind_param E ''feeding_logs'' ''actor''
             (if truthy (field body ''actor'') then field body ''actor'' else VStr ''user'')
           = Some a"
  shows "triggerFeed E now d aquariumId body =
           (reply 201 (Feeding (Row [''id'' \<mapsto> serial (feeding_logs_id_seq d), ''device_id'' \<mapsto> dev,
                                     ''ts'' \<mapsto> VTime now, ''mode'' \<mapsto> VStr ''MANUAL'',
                                     ''volume_grams'' \<mapsto> v, ''actor'' \<mapsto> a])),
            d\<lparr>feeding_logs := feeding_logs d @
                 [[''id'' \<mapsto> serial (feeding_logs_id_seq d), ''device_id'' \<mapsto> dev,
                   ''ts'' \<mapsto> VTime now, ''mode'' \<mapsto> VStr ''MANUAL'',
                   ''volume_grams'' \<mapsto> v, ''actor'' \<mapsto> a]],
              feeding_logs_id_seq := Suc (feeding_logs_id_seq d)\<rparr>) \<and>
         (field body ''volume_grams'' = VUndef \<or> field body ''volume_grams'' = VNull \<or>
          Number E (field body ''volume_grams'') = NaN \<or>
          Number E (field body ''volume_grams'') = Fin 0 \<longrightarrow> v = VNull) \<and>
         (\<forall>q. field body ''volume_grams'' = VNum (Fin q) \<and> q \<noteq> 0 \<longrightarrow>
              bind_param E ''feeding_logs'' ''volume_grams'' (VNum (Fin q)) = Some v)"
    (is "?run \<and> ?null \<and> ?kept")
proof (intro conjI)
  show ?run using assms by (rule triggerFeed_201)
  show ?null using assms(2) by (auto simp: bind_param_null)
  show ?kept using assms(2) by auto
qed

theorem triggerFeed_normalises_witness:
  "triggerFeed example_env 1000 tank_db ''2''
     [''volume_grams'' \<mapsto> VNum (Fin 0), ''actor'' \<mapsto> VStr ''''] =
     (reply 201 (Feeding (Row (feed_log 5 2 1000 VNull))),
      tank_db\<lparr>feeding_logs := feeding_logs tank_db @ [feed_log 5 2 1000 VNull],
               feeding_logs_id_seq := 6\<rparr>)"
proof -
  let ?body = "[''volume_grams'' \<mapsto> VNum (Fin 0), ''actor'' \<mapsto> VStr '''']"
  have "bind_param example_env ''feeding_logs'' ''device_id'' (VStr ''2'') = Some (serial 2)"
    by (rule example_binds)
  moreover have "bind_param example_env ''feeding_logs'' ''volume_grams''
             (if field ?body ''volume_grams'' = VUndef \<or> field ?body ''volume_grams'' = VNull \<or>
                 Number example_env (field ?body ''volume_grams'') = NaN \<or>
                 Number example_env (field ?body ''volume_grams'') = Fin 0
              then VNull else VNum (Number example_env (field ?body ''volume_grams''))) = Some VNull"
    by (simp add: field_def bind_param_null)
  moreover have "bind_param example_env ''feeding_logs'' ''actor''
             (if truthy (field ?body ''actor'') then field ?body ''actor'' else VStr ''user'')
           = Some (VStr ''user'')"
    by (simp add: field_def bind_param_def example_reads example_coerce_def)
  moreover have "feeding_logs_id_seq tank_db = 5"
    by (simp add: tank_db_def)
  ultimately show ?thesis
    using triggerFeed_normalises
            [of example_env "''2''" "serial 2" ?body VNull "VStr ''user''" 1000 tank_db]
    by (simp add: feed_log_def)
qed


subsection \<open>Creating a schedule\<close>

lemma returning_schedule:
  "returning [''id'', ''device_id'', ''name'', ''type'', ''interval_hours'', ''feed_volume_grams'',
              ''enabled'', ''start_date'', ''end_date'']
     [''id'' \<mapsto> a, ''device_id'' \<mapsto> b, ''name'' \<mapsto> c, ''type'' \<mapsto> e, ''interval_hours'' \<mapsto> f,
      ''feed_volume_grams'' \<mapsto> g, ''enabled'' \<mapsto> h, ''start_date'' \<mapsto> i, ''end_date'' \<mapsto> j]
   = [''id'' \<mapsto> a, ''device_id'' \<mapsto> b, ''name'' \<mapsto> c, ''type'' \<mapsto> e, ''interval_hours'' \<mapsto> f,
      ''feed_volume_grams'' \<mapsto> g, ''enabled'' \<mapsto> h, ''start_date'' \<mapsto> i, ''end_date'' \<mapsto> j]"
  by (rule ext) (simp add: returning_def col_def)

lemma createFeedingSetting_201:
  assumes "truthy (field body ''type'')"
      and "bind_param E ''schedules'' ''device_id'' (VStr aquariumId) = Some dev"
      and "bind_param E ''schedules'' ''name'' (js_or (field body ''name'') VNull) = Some nm"
      and "bind_param E ''schedules'' ''type'' (field body ''type'') = Some ty"
      and "bind_param E ''schedules'' ''interval_hours''
             (js_or (field body ''interval_hours'') VNull) = Some ih"
      and "bind_param E ''schedules'' ''feed_volume_grams''
             (js_or (field body ''feed_volume_grams'') VNull) = Some fv"
      and "bind_param E ''schedules'' ''enabled'' (field body ''enabled'') = Some en"
      and "bind_param E ''schedules'' ''start_date''
             (js_or (field body ''start_date'') VNull) = Some sd"
      and "bind_param E ''schedules'' ''end_date''
             (js_or (field body ''end_date'') VNull) = Some ed"
      and "r = [''id'' \<mapsto> serial (schedules_id_seq d), ''device_id'' \<mapsto> dev, ''name'' \<mapsto> nm,
                ''type'' \<mapsto> ty, ''interval_hours'' \<mapsto> ih, ''feed_volume_grams'' \<mapsto> fv,
                ''enabled'' \<mapsto> coalesce en (VBool True), ''start_date'' \<mapsto> sd,
                ''end_date'' \<mapsto> ed]"
  shows "createFeedingSetting E d aquariumId body =
           (reply 201 (Row r),
            d\<lparr>schedules := schedules d @ [r], schedules_id_seq := Suc (schedules_id_seq d)\<rparr>)"
  using assms
  by (simp add: createFeedingSetting_def Let_def insert_schedule_def first_row_def
        returning_schedule)

lemma falsy_bound_null:
  "bind_param E t c (js_or v VNull) = Some b \<Longrightarrow> \<not> truthy v \<Longrightarrow> b = VNull"
  by (simp add: js_or_def bind_param_null)

text \<open>
  Claim C10: let \<open>type\<close> be truthy and let the engine read the eight parameters into
  their columns.  The request is answered with 201 and the created row, which is appended
  to \<open>schedules\<close>.  \<open>name\<close>, \<open>interval_hours\<close>, \<open>feed_volume_grams\<close>, \<open>start_date\<close> and
  \<open>end_date\<close> are bound as \<^verbatim>\<open>field || null\<close>, so the row holds \<open>NULL\<close> there whenever
  the body's value is falsy; in particular \<open>interval_hours\<close> and \<open>feed_volume_grams\<close> of 0
  are stored as \<open>NULL\<close>, and so would a \<open>false\<close> be in any of the five.  \<open>enabled\<close> is
  bound as it is: the row holds \<open>true\<close> when the body omits it or gives \<open>null\<close>, and
  otherwise what the engine reads from the body's value, which is not replaced by the
  default unless it is \<open>NULL\<close>; so \<open>false\<close> is stored as \<open>false\<close> where the column reads
  a boolean as itself.
\<close>

theorem createFeedingSetting_collapses_falsy:
  assumes "truthy (field body ''type'')"
      and "bind_param E ''schedules'' ''device_id'' (VStr aquariumId) = Some dev"
      and "bind_param E ''schedules'' ''name'' (js_or (field body ''name'') VNull) = Some nm"
      and "bind_param E ''schedules'' ''type'' (field body ''type'') = Some ty"
      and "bind_param E ''schedules'' ''interval_hours''
             (js_or (field body ''interval_hours'') VNull) = Some ih"
      and "bind_param E ''schedules'' ''feed_volume_grams''
             (js_or (field body ''feed_volume_grams'') VNull) = Some fv"
      and "bind_param E ''schedules'' ''enabled'' (field body ''enabled'') = Some en"
      and "bind_param E ''schedules'' ''start_date''
             (js_or (field body ''start_date'') VNull) = Some sd"
      and "bind_param E ''schedules'' ''end_date''
             (js_or (field body ''end_date'') VNull) = Some ed"
  shows "\<exists>r. createFeedingSetting E d aquariumId body =
               (reply 201 (Row r),
                d\<lparr>schedules := schedules d @ [r],
                  schedules_id_seq := Suc (schedules_id_seq d)\<rparr>) \<and>
             (\<forall>(c, b) \<in> {(''name'', nm), (''interval_hours'', ih), (''feed_volume_grams'', fv),
                           (''start_date'', sd), (''end_date'', ed)}.
                col r c = b \<and> (\<not> truthy (field body c) \<longrightarrow> col r c = VNull)) \<and>
             (field body ''enabled'' = VUndef \<or> field body ''enabled'' = VNull \<longrightarrow>
                col r ''enabled'' = VBool True) \<and>
             (en \<noteq> VNull \<longrightarrow> col r ''enabled'' = en) \<and>
             (field body ''interval_hours'' = VNum (Fin 0) \<longrightarrow>
                col r ''interval_hours'' = VNull) \<and>
             (field body ''feed_volume_grams'' = VNum (Fin 0) \<longrightarrow>
                col r ''feed_volume_grams'' = VNull)"
    (is "\<exists>r. ?run r \<and> ?collapsed r \<and> ?default r \<and> ?kept r \<and> ?zero1 r \<and> ?zero2 r")
proof -
  let ?r = "[''id'' \<mapsto> serial (schedules_id_seq d), ''device_id'' \<mapsto> dev, ''name'' \<mapsto> nm,
             ''type'' \<mapsto> ty, ''interval_hours'' \<mapsto> ih, ''feed_volume_grams'' \<mapsto> fv,
             ''enabled'' \<mapsto> coalesce en (VBool True), ''start_date'' \<mapsto> sd, ''end_date'' \<mapsto> ed]"
  have run: "?run ?r"
    using assms by (rule createFeedingSetting_201) simp
  have cols: "col ?r ''name'' = nm" "col ?r ''interval_hours'' = ih"
      "col ?r ''feed_volume_grams'' = fv" "col ?r ''start_date'' = sd" "col ?r ''end_date'' = ed"
      "col ?r ''enabled'' = coalesce en (VBool True)"
    by (simp_all add: col_def)
  have nulls: "\<not> truthy (field body ''name'') \<longrightarrow> nm = VNull"
      "\<not> truthy (field body ''interval_hours'') \<longrightarrow> ih = VNull"
      "\<not> truthy (field body ''feed_volume_grams'') \<longrightarrow> fv = VNull"
      "\<not> truthy (field body ''start_date'') \<longrightarrow> sd = VNull"
      "\<not> truthy (field body ''end_date'') \<longrightarrow> ed = VNull"
    using assms(3,5,6,8,9) falsy_bound_null by blast+
  have collapsed: "?collapsed ?r"
    unfolding ball_simps prod.case cols using nulls by blast
  have "en = VNull" if "field body ''enabled'' = VUndef \<or> field body ''enabled'' = VNull"
    using assms(7) that by (auto dest: bound_null)
  then have default: "?default ?r"
    unfolding cols by (simp add: coalesce_def)
  have kept: "?kept ?r"
    unfolding cols by (simp add: coalesce_def)
  have zero1: "?zero1 ?r" and zero2: "?zero2 ?r"
    unfolding cols using nulls by auto
  show ?thesis
    by (rule exI [of _ ?r]) (intro conjI run collapsed default kept zero1 zero2)
qed

theorem createFeedingSetting_collapses_falsy_witness:
  "\<exists>r. createFeedingSetting example_env tank_db ''1''
          [''type'' \<mapsto> VStr ''interval'', ''interval_hours'' \<mapsto> VNum (Fin 0),
           ''feed_volume_grams'' \<mapsto> VNum (Fin 0), ''enabled'' \<mapsto> VBool False] =
          (reply 201 (Row r),
           tank_db\<lparr>schedules := schedules tank_db @ [r],
                    schedules_id_seq := Suc (schedules_id_seq tank_db)\<rparr>) \<and>
        col r ''interval_hours'' = VNull \<and> col r ''feed_volume_grams'' = VNull \<and>
        col r ''enabled'' = VBool False"
proof -
  let ?body = "[''type'' \<mapsto> VStr ''interval'', ''interval_hours'' \<mapsto> VNum (Fin 0),
                ''feed_volume_grams'' \<mapsto> VNum (Fin 0), ''enabled'' \<mapsto> VBool False]"
  have fields: "field ?body ''type'' = VStr ''interval''" "field ?body ''name'' = VUndef"
      "field ?body ''interval_hours'' = VNum (Fin 0)"
      "field ?body ''feed_volume_grams'' = VNum (Fin 0)"
      "field ?body ''enabled'' = VBool False" "field ?body ''start_date'' = VUndef"
      "field ?body ''end_date'' = VUndef"
    by (simp_all add: field_def)
  have "\<exists>r. createFeedingSetting example_env tank_db ''1'' ?body =
               (reply 201 (Row r),
                tank_db\<lparr>schedules := schedules tank_db @ [r],
                         schedules_id_seq := Suc (schedules_id_seq tank_db)\<rparr>) \<and>
             (\<forall>(c, b) \<in> {(''name'', VNull), (''interval_hours'', VNull),
                           (''feed_volume_grams'', VNull), (''start_date'', VNull),
                           (''end_date'', VNull)}.
                col r c = b \<and> (\<not> truthy (field ?body c) \<longrightarrow> col r c = VNull)) \<and>
             (field ?body ''enabled'' = VUndef \<or> field ?body ''enabled'' = VNull \<longrightarrow>
                col r ''enabled'' = VBool True) \<and>
             (VBool False \<noteq> VNull \<longrightarrow> col r ''enabled'' = VBool False) \<and>
             (field ?body ''interval_hours'' = VNum (Fin 0) \<longrightarrow>
                col r ''interval_hours'' = VNull) \<and>
             (field ?body ''feed_volume_grams'' = VNum (Fin 0) \<longrightarrow>
                col r ''feed_volume_grams'' = VNull)"
  proof (rule createFeedingSetting_collapses_falsy
                [where dev = "serial 1" and ty = "VStr ''interval''"])
    show "bind_param example_env ''schedules'' ''device_id'' (VStr ''1'') = Some (serial 1)"
      by (rule example_binds)
  qed (simp_all add: fields js_or_def bind_param_def example_reads example_coerce_def)
  then obtain r where r:
      "createFeedingSetting example_env tank_db ''1'' ?body =
         (reply 201 (Row r),
          tank_db\<lparr>schedules := schedules tank_db @ [r],
                   schedules_id_seq := Suc (schedules_id_seq tank_db)\<rparr>)"
      "\<forall>(c, b) \<in> {(''name'', VNull), (''interval_hours'', VNull),
                    (''feed_volume_grams'', VNull), (''start_date'', VNull),
                    (''end_date'', VNull)}.
         col r c = b \<and> (\<not> truthy (field ?body c) \<longrightarrow> col r c = VNull)"
      "VBool False \<noteq> VNull \<longrightarrow> col r ''enabled'' = VBool False"
    by blast
  from r(2) have "col r ''interval_hours'' = VNull" "col r ''feed_volume_grams'' = VNull"
    unfolding ball_simps prod.case by blast+
  moreover from r(3) have "col r ''enabled'' = VBool False" by simp
  ultimately show ?thesis using r(1) by blast
qed


subsection \<open>Descending order\<close>

lemma order_by_desc_mset: "mset (order_by_desc c rs) = mset rs"
  by (simp add: order_by_desc_def)

lemma order_by_desc_set: "set (order_by_desc c rs) = set rs"
  by (simp add: order_by_desc_def)

lemma order_by_desc_sorted: "sorted (map (\<lambda>r. desc_key (col r c)) (order_by_desc c rs))"
  by (simp add: order_by_desc_def)

lemma desc_key_later:
  assumes "sorted (map (\<lambda>r. desc_key (col r c)) rs)"
      and "i < j" "j < length rs"
      and "col (rs ! i) c = VTime a" "col (rs ! j) c = VTime b"
  shows "b \<le> a"
proof -
  have "map (\<lambda>r. desc_key (col r c)) rs ! i \<le> map (\<lambda>r. desc_key (col r c)) rs ! j"
    using assms(1-3) by (intro sorted_nth_mono) simp_all
  with assms(2-5) show ?thesis by simp
qed

subsection \<open>The condition history\<close>

lemma sql_le_times: "sql_le a b = (\<exists>s t. a = VTime s \<and> b = VTime t \<and> s \<le> t)"
  by (cases a; cases b) simp_all

lemma bind_bound_given:
  "truthy v \<longrightarrow> bind_param E ''sensor_data'' ''ts'' v = Some b \<Longrightarrow>
   bind_bound E (if truthy v then Some v else None) = Some (if truthy v then Some b else None)"
  by (simp add: bind_bound_def)

lemma getConditionHistory_200:
  assumes "bind_param E ''sensor_data'' ''device_id'' (VStr aquariumId) = Some dev"
      and "truthy (field query ''start'') \<longrightarrow>
             bind_param E ''sensor_data'' ''ts'' (field query ''start'') = Some s"
      and "truthy (field query ''end'') \<longrightarrow>
             bind_param E ''sensor_data'' ''ts'' (field query ''end'') = Some e"
  shows "getConditionHistory E d aquariumId query =
           (reply 200 (Rows (take 500 (order_by_desc ''ts''
              (filter (\<lambda>r. sql_eq (col r ''device_id'') dev \<and>
                           (truthy (field query ''start'') \<longrightarrow> sql_le s (col r ''ts'')) \<and>
                           (truthy (field query ''end'') \<longrightarrow> sql_le (col r ''ts'') e))
                 (sensor_data d))))), d)"
proof -
  have "in_range (if truthy (field query ''start'') then Some s else None)
                 (if truthy (field query ''end'') then Some e else None) t =
        ((truthy (field query ''start'') \<longrightarrow> sql_le s t) \<and>
         (truthy (field query ''end'') \<longrightarrow> sql_le t e))" for t
    by (simp add: in_range_def)
  then show ?thesis
    using assms(1) bind_bound_given [OF assms(2)] bind_bound_given [OF assms(3)]
    by (simp add: getConditionHistory_def Let_def select_sensor_data_def)
qed

text \<open>
  Claim C6: let the engine read the path's id into \<open>device_id\<close> and each bound that is
  given (a truthy \<open>start\<close>, a truthy \<open>end\<close>) into \<open>ts\<close>.  The request is answered with
  200 and leaves the database unchanged.  The rows of the answer are the first 500 of a
  list that holds exactly the readings of the aquarium within the bounds, each as often as
  the table does, latest first.  So every row of the answer is a reading of the table with
  the \<open>device_id\<close> of the path, whose \<open>ts\<close> is at or after \<open>start\<close> when \<open>start\<close> is
  given and at or before \<open>end\<close> when \<open>end\<close> is given; of two rows the earlier in the list
  has the later or the same \<open>ts\<close>; and there are at most 500.
\<close>

theorem getConditionHistory_bounded:
  assumes "bind_param E ''sensor_data'' ''device_id'' (VStr aquariumId) = Some dev"
      and "truthy (field query ''start'') \<longrightarrow>
             bind_param E ''sensor_data'' ''ts'' (field query ''start'') = Some s"
      and "truthy (field query ''end'') \<longrightarrow>
             bind_param E ''sensor_data'' ''ts'' (field query ''end'') = Some e"
  shows "\<exists>rows found.
           getConditionHistory E d aquariumId query = (reply 200 (Rows rows), d) \<and>
           rows = take 500 found \<and> length rows \<le> 500 \<and>
           mset found =
             mset (filter (\<lambda>r. sql_eq (col r ''device_id'') dev \<and>
                               (truthy (field query ''start'') \<longrightarrow>
                                  (\<exists>a t. s = VTime a \<and> col r ''ts'' = VTime t \<and> a \<le> t)) \<and>
                               (truthy (field query ''end'') \<longrightarrow>
                                  (\<exists>b t. e = VTime b \<and> col r ''ts'' = VTime t \<and> t \<le> b)))
                     (sensor_data d)) \<and>
           (\<forall>r \<in> set rows.
              r \<in> set (sensor_data d) \<and> sql_eq (col r ''device_id'') dev \<and>
              (truthy (field query ''start'') \<longrightarrow>
                 (\<exists>a t. s = VTime a \<and> col r ''ts'' = VTime t \<and> a \<le> t)) \<and>
              (truthy (field query ''end'') \<longrightarrow>
                 (\<exists>b t. e = VTime b \<and> col r ''ts'' = VTime t \<and> t \<le> b))) \<and>
           (\<forall>i j a b. i < j \<and> j < length found \<and> col (found ! i) ''ts'' = VTime a \<and>
                      col (found ! j) ''ts'' = VTime b \<longrightarrow> b \<le> a)"
proof -
  let ?ok = "\<lambda>r. sql_eq (col r ''device_id'') dev \<and>
                 (truthy (field query ''start'') \<longrightarrow>
                    (\<exists>a t. s = VTime a \<and> col r ''ts'' = VTime t \<and> a \<le> t)) \<and>
                 (truthy (field query ''end'') \<longrightarrow>
                    (\<exists>b t. e = VTime b \<and> col r ''ts'' = VTime t \<and> t \<le> b))"
  let ?found = "order_by_desc ''ts'' (filter ?ok (sensor_data d))"
  let ?rows = "take 500 ?found"
  have sel: "(\<lambda>r. sql_eq (col r ''device_id'') dev \<and>
                  (truthy (field query ''start'') \<longrightarrow> sql_le s (col r ''ts'')) \<and>
                  (truthy (field query ''end'') \<longrightarrow> sql_le (col r ''ts'') e)) = ?ok"
    by (rule ext) (auto simp: sql_le_times)
  have run: "getConditionHistory E d aquariumId query = (reply 200 (Rows ?rows), d)"
    using getConditionHistory_200 [OF assms, of d] by (simp only: sel)
  have len: "length ?rows \<le> 500" by simp
  have perm: "mset ?found = mset (filter ?ok (sensor_data d))"
    by (simp add: order_by_desc_mset)
  have "set ?rows \<subseteq> set (filter ?ok (sensor_data d))"
    using set_take_subset [of 500 ?found] by (simp add: order_by_desc_set)
  then have each: "\<forall>r \<in> set ?rows. r \<in> set (sensor_data d) \<and> ?ok r"
    by auto
  have desc: "\<forall>i j a b. i < j \<and> j < length ?found \<and> col (?found ! i) ''ts'' = VTime a \<and>
                 col (?found ! j) ''ts'' = VTime b \<longrightarrow> b \<le> a"
    using desc_key_later [OF order_by_desc_sorted] by blast
  show ?thesis
    apply (rule exI [of _ ?rows])
    apply (rule exI [of _ ?found])
    apply (intro conjI run refl len perm)
    using each apply blast
    using desc apply blast
    done
qed

lemma tank_readings:
  "sensor_data tank_db =
     [reading 1 100 24, reading 2 250 26, reading 1 300 25, reading 1 200 23]"
  by (simp add: tank_db_def)

lemma reading_cols:
  "col (reading dev t temp) ''device_id'' = serial dev" "col (reading dev t temp) ''ts'' = VTime t"
  by (simp_all add: reading_def col_def)

theorem getConditionHistory_bounded_witness:
  "\<exists>rows. getConditionHistory example_env tank_db ''1''
             [''start'' \<mapsto> VStr ''200'', ''end'' \<mapsto> VStr ''300''] =
             (reply 200 (Rows rows), tank_db) \<and>
          length rows \<le> 500 \<and>
          rows = [reading 1 300 25, reading 1 200 23]"
proof -
  let ?query = "[''start'' \<mapsto> VStr ''200'', ''end'' \<mapsto> VStr ''300'']"
  have bounds: "bind_param example_env ''sensor_data'' ''ts'' (VStr ''200'') = Some (VTime 200)"
      "bind_param example_env ''sensor_data'' ''ts'' (VStr ''300'') = Some (VTime 300)"
    by (simp_all add: bind_param_def example_reads example_coerce_def read_nat_def digit_def)
  have dev: "bind_param example_env ''sensor_data'' ''device_id'' (VStr ''1'') = Some (serial 1)"
    by (rule example_binds)
  obtain rows where run:
      "getConditionHistory example_env tank_db ''1'' ?query = (reply 200 (Rows rows), tank_db)"
      "length rows \<le> 500"
    using getConditionHistory_bounded
            [of example_env "''1''" "serial 1" ?query "VTime 200" "VTime 300" tank_db]
    by (auto simp: dev bounds field_def)
  have "getConditionHistory example_env tank_db ''1'' ?query =
      (reply 200 (Rows [reading 1 300 25, reading 1 200 23]), tank_db)"
    using getConditionHistory_200
            [of example_env "''1''" "serial 1" ?query "VTime 200" "VTime 300" tank_db]
    by (simp add: dev bounds field_def tank_readings order_by_desc_def sort_key_def reading_cols
          serial_eq)
  with run(1) have "rows = [reading 1 300 25, reading 1 200 23]"
    by (simp add: reply_def)
  with run show ?thesis by blast
qed


subsection \<open>The daily consumption\<close>











end
